theory Spec2Isabelle
  imports Main
begin

section \<open>Python values\<close>

text \<open>
  A Python \<open>str\<close> is a sequence of Unicode code points, so it is modelled as a list of
  code points and not as a list of bytes: \<open>str.strip\<close>, the UTF-8 round trip of the
  stream parser and the Cyrillic messages of the program all depend on code points.
  \<open>ascii\<close> embeds an ASCII literal.
\<close>

type_synonym pystr = "nat list"

definition ascii :: "string \<Rightarrow> pystr" where
  "ascii s = map of_char s"

text \<open>\<open>str.isspace\<close> for one code point (the white space that \<open>str.strip()\<close> removes).\<close>

definition isspace :: "nat \<Rightarrow> bool" where
  "isspace c \<longleftrightarrow>
     (9 \<le> c \<and> c \<le> 13) \<or> (28 \<le> c \<and> c \<le> 32) \<or> c = 133 \<or> c = 160 \<or> c = 5760 \<or>
     (8192 \<le> c \<and> c \<le> 8202) \<or> c = 8232 \<or> c = 8233 \<or> c = 8239 \<or> c = 8287 \<or> c = 12288"

definition strip :: "pystr \<Rightarrow> pystr" where
  "strip s = rev (dropWhile isspace (rev (dropWhile isspace s)))"

text \<open>\<open>str(n)\<close> for an integer: its decimal digits, with a minus sign when negative.\<close>

fun str_nat :: "nat \<Rightarrow> pystr" where
  "str_nat n = (if n < 10 then [48 + n] else str_nat (n div 10) @ [48 + n mod 10])"

declare str_nat.simps [simp del]

definition str_int :: "int \<Rightarrow> pystr" where
  "str_int i = (if i < 0 then 45 # str_nat (nat (- i)) else str_nat (nat i))"

text \<open>
  A \<open>dict\<close> keeps its keys in insertion order, and \<open>min\<close>/\<open>max\<close> over its keys return
  the first extremal key in that order, so a dict is an association list with distinct
  keys. \<open>dict_set\<close> is \<open>d[k] = v\<close> (an existing key keeps its place), \<open>dict_del\<close> is
  \<open>del d[k]\<close> for a key of the dict (the program only deletes keys it has just read
  from the dict itself).
\<close>

type_synonym ('k, 'v) dict = "('k \<times> 'v) list"

definition dict_ok :: "('k, 'v) dict \<Rightarrow> bool" where
  "dict_ok d \<longleftrightarrow> distinct (map fst d)"

fun dict_set :: "'k \<Rightarrow> 'v \<Rightarrow> ('k, 'v) dict \<Rightarrow> ('k, 'v) dict" where
  "dict_set k v [] = [(k, v)]"
| "dict_set k v ((k', v') # d) =
     (if k' = k then (k, v) # d else (k', v') # dict_set k v d)"

definition dict_del :: "'k \<Rightarrow> ('k, 'v) dict \<Rightarrow> ('k, 'v) dict" where
  "dict_del k d = filter (\<lambda>kv. fst kv \<noteq> k) d"

definition dict_get :: "('k, 'v) dict \<Rightarrow> 'k \<Rightarrow> 'v option" where
  "dict_get d k = map_of d k"

definition dict_keys :: "('k, 'v) dict \<Rightarrow> 'k list" where
  "dict_keys d = map fst d"

text \<open>
  \<open>min(keys, key=f)\<close> and \<open>max(keys, key=f)\<close>: the first element, in iteration order,
  whose measure is minimal (maximal); \<open>None\<close> stands for the \<open>ValueError\<close> on an empty
  sequence. The program takes them over the keys of the store with the measure
  \<open>sessions[k].last_used\<close>; the model takes them over the entries, with the measure
  \<open>last_used\<close> of the value, and then the key of the entry found.
\<close>

fun min_by :: "('k \<Rightarrow> int) \<Rightarrow> 'k list \<Rightarrow> 'k option" where
  "min_by f [] = None"
| "min_by f (k # ks) =
     (case min_by f ks of
        None \<Rightarrow> Some k
      | Some m \<Rightarrow> if f m < f k then Some m else Some k)"

fun max_by :: "('k \<Rightarrow> int) \<Rightarrow> 'k list \<Rightarrow> 'k option" where
  "max_by f [] = None"
| "max_by f (k # ks) =
     (case max_by f ks of
        None \<Rightarrow> Some k
      | Some m \<Rightarrow> if f k < f m then Some m else Some k)"

section \<open>Configuration (config.py)\<close>

record Config =
  onec_ai_token :: pystr
  base_url :: pystr
  timeout :: int
  ui_language :: pystr
  programming_language :: pystr
  script_language :: pystr
  max_active_sessions :: int
  session_ttl :: int

text \<open>
  \<open>Config()\<close> reads every field from its settings source (the environment and the
  \<open>.env\<close> file) through the settings library. What the declarations of the fields fix:
  a string field takes any value; for an integer field the source holds nothing, a value
  that is not an integer, or an integer, and no field declares a bound; a field without a
  value takes its default; the token has none and is required. Whatever else the library
  refuses in a source (a key of the \<open>.env\<close> file that is no field, for example) is the
  list \<open>set_other_errors\<close>, which the program does not control. A validation error lists
  what it refuses.
\<close>

datatype int_setting = Unset | NotAnInteger | IntValue int

record settings =
  set_onec_ai_token :: "pystr option"
  set_base_url :: "pystr option"
  set_timeout :: int_setting
  set_ui_language :: "pystr option"
  set_programming_language :: "pystr option"
  set_script_language :: "pystr option"
  set_max_active_sessions :: int_setting
  set_session_ttl :: int_setting
  set_other_errors :: "string list"

definition str_field :: "pystr \<Rightarrow> pystr option \<Rightarrow> pystr" where
  "str_field d x = (case x of None \<Rightarrow> d | Some v \<Rightarrow> v)"

definition int_field :: "int \<Rightarrow> int_setting \<Rightarrow> int" where
  "int_field d x = (case x of IntValue n \<Rightarrow> n | _ \<Rightarrow> d)"

definition validation_errors :: "settings \<Rightarrow> string list" where
  "validation_errors s =
     set_other_errors s @
     (if set_onec_ai_token s = None then [''onec_ai_token''] else []) @
     (if set_timeout s = NotAnInteger then [''timeout''] else []) @
     (if set_max_active_sessions s = NotAnInteger then [''max_active_sessions''] else []) @
     (if set_session_ttl s = NotAnInteger then [''session_ttl''] else [])"

definition get_config :: "settings \<Rightarrow> string list + Config" where
  "get_config s =
     (if validation_errors s \<noteq> [] then Inl (validation_errors s)
      else Inr
        \<lparr>onec_ai_token = str_field [] (set_onec_ai_token s),
         base_url = str_field (ascii ''https://code.1c.ai'') (set_base_url s),
         timeout = int_field 30 (set_timeout s),
         ui_language = str_field (ascii ''russian'') (set_ui_language s),
         programming_language = str_field [] (set_programming_language s),
         script_language = str_field [] (set_script_language s),
         max_active_sessions = int_field 10 (set_max_active_sessions s),
         session_ttl = int_field 3600 (set_session_ttl s)\<rparr>)"

section \<open>Sessions (models.py, used by api_client.py)\<close>

text \<open>
  A \<open>datetime\<close> is a number of microseconds, a \<open>timedelta\<close> likewise.
  \<open>timedelta(seconds=n)\<close> is \<open>n\<close> million microseconds when its number of days,
  \<open>n div 86400\<close>, is between -999999999 and 999999999; otherwise it raises
  \<open>OverflowError\<close>, which is \<open>None\<close> here.
\<close>

type_synonym datetime = int

definition timedelta_seconds :: "int \<Rightarrow> int option" where
  "timedelta_seconds n =
     (if - 999999999 \<le> n div 86400 \<and> n div 86400 \<le> 999999999 then Some (n * 1000000)
      else None)"

record ConversationSession =
  conversation_id :: pystr
  created_at :: datetime
  last_used :: datetime

text \<open>
  Modelled from the spec: the constructor \<open>ConversationSession(conversation_id=...)\<close> of
  models.py, which is not among the sources. The spec's Session has an id, a creation time
  and a last-used time, and a new entry has \<open>created_at = last_used_at = now\<close>.
\<close>

definition new_session :: "datetime \<Rightarrow> pystr \<Rightarrow> ConversationSession" where
  "new_session now cid = \<lparr>conversation_id = cid, created_at = now, last_used = now\<rparr>"

text \<open>
  Modelled from the spec: \<open>ConversationSession.update_usage\<close> of models.py, which is not
  among the sources. The spec's touch updates \<open>last_used_at\<close> to the current time.
\<close>

definition update_usage :: "datetime \<Rightarrow> ConversationSession \<Rightarrow> ConversationSession" where
  "update_usage now s = s\<lparr>last_used := now\<rparr>"

section \<open>The event stream (api_client.py, \<open>_parse_sse_response\<close>)\<close>

text \<open>
  What \<open>json.loads\<close> returns. A float is kept as the decimal number \<open>m * 10 ^ e\<close> that
  was written, or is an infinity or a NaN; only its truth value is used. The decimal
  number is read as the nearest \<open>float\<close>, which is zero exactly when its magnitude is at
  most \<open>2 ^ - 1075\<close>, half of the smallest positive \<open>float\<close>.
\<close>

datatype pyfloat = Decimal int int | PosInf | NegInf | NaN

datatype json =
    JNull
  | JBool bool
  | JInt int
  | JFloat pyfloat
  | JStr pystr
  | JList "json list"
  | JDict "(pystr \<times> json) list"

text \<open>The truth value of a decoded value, as \<open>if text:\<close> tests it.\<close>

fun truthy :: "json \<Rightarrow> bool" where
  "truthy JNull = False"
| "truthy (JBool b) = b"
| "truthy (JInt n) = (n \<noteq> 0)"
| "truthy (JFloat (Decimal m e)) = (m \<noteq> 0 \<and> (0 \<le> e \<or> \<bar>m\<bar> * 2 ^ 1075 > 10 ^ nat (- e)))"
| "truthy (JFloat _) = True"
| "truthy (JStr s) = (s \<noteq> [])"
| "truthy (JList xs) = (xs \<noteq> [])"
| "truthy (JDict d) = (d \<noteq> [])"

text \<open>
  Modelled from the spec: the class \<open>MessageChunk\<close> of models.py, which is not among the
  sources. The spec's event object has a \<open>role\<close> field, an optional \<open>content\<close> field
  (itself an object that may contain a \<open>text\<close> key) and a \<open>finished\<close> boolean flag.
\<close>

record MessageChunk =
  role :: pystr
  content :: "(pystr, json) dict option"
  finished :: bool

text \<open>
  \<open>text.encode('utf-8', errors='ignore').decode('utf-8', errors='ignore')\<close>: the encoder
  drops the code points it cannot encode, which are the surrogates U+D800 to U+DFFF, and
  the decoder reads back what was encoded.
\<close>

definition utf8_roundtrip :: "pystr \<Rightarrow> pystr" where
  "utf8_roundtrip t = filter (\<lambda>c. \<not> (55296 \<le> c \<and> c \<le> 57343)) t"

text \<open>
  One pass of the loop body on one line, from the accumulator \<open>full_text\<close>. The parameter
  \<open>decode\<close> stands for \<open>json.loads\<close> followed by \<open>MessageChunk(**data)\<close>; it is \<open>None\<close>
  when either raises, and both handlers of the loop body then \<open>continue\<close>. A truthy
  \<open>text\<close> that is not a \<open>str\<close> has no \<open>encode\<close>: the \<open>AttributeError\<close> is caught by the
  same handler, before the test of \<open>finished\<close> is reached.
\<close>

datatype sse_step = Continue pystr | Break pystr

definition sse_line :: "(pystr \<Rightarrow> MessageChunk option) \<Rightarrow> pystr \<Rightarrow> pystr \<Rightarrow> sse_step" where
  "sse_line decode full_text line =
     (if take 6 line = ascii ''data: '' then
        (case decode (drop 6 line) of
           None \<Rightarrow> Continue full_text
         | Some chunk \<Rightarrow>
             (case content chunk of
                None \<Rightarrow> Continue full_text
              | Some c \<Rightarrow>
                  if role chunk = ascii ''assistant'' \<and> c \<noteq> [] then
                    (case dict_get c (ascii ''text'') of
                       None \<Rightarrow> Continue full_text
                     | Some text \<Rightarrow>
                         if truthy text then
                           (case text of
                              JStr t \<Rightarrow>
                                if finished chunk then Break (utf8_roundtrip t)
                                else Continue (utf8_roundtrip t)
                            | _ \<Rightarrow> Continue full_text)
                         else if finished chunk then Break full_text
                         else Continue full_text)
                  else Continue full_text))
      else Continue full_text)"

text \<open>
  The \<open>async for\<close> loop over the lines of the response. The result is the accumulator
  at the exit, the lines that were never read, and whether the loop left by \<open>break\<close>.
  The response body is a finite list of lines.
\<close>

fun sse_loop ::
  "(pystr \<Rightarrow> MessageChunk option) \<Rightarrow> pystr \<Rightarrow> pystr list \<Rightarrow> pystr \<times> pystr list \<times> bool" where
  "sse_loop decode full_text [] = (full_text, [], False)"
| "sse_loop decode full_text (line # rest) =
     (case sse_line decode full_text line of
        Continue t \<Rightarrow> sse_loop decode t rest
      | Break t \<Rightarrow> (t, rest, True))"

definition parse_sse_response :: "(pystr \<Rightarrow> MessageChunk option) \<Rightarrow> pystr list \<Rightarrow> pystr" where
  "parse_sse_response decode lines = strip (fst (sse_loop decode [] lines))"

subsection \<open>A decoder for the examples\<close>

text \<open>
  The properties of the loop are proved for every \<open>decode\<close>. The examples need one that
  reads real lines: \<open>json_loads\<close> follows \<open>json.loads\<close> with its default arguments:
  objects (a repeated key keeps its first place and its last value), arrays, strings with
  their escapes, integers, numbers with a fraction or an exponent, \<open>true\<close>, \<open>false\<close>,
  \<open>null\<close>, and the three names \<open>NaN\<close>, \<open>Infinity\<close> and \<open>-Infinity\<close>. It is \<open>None\<close>
  where \<open>json.loads\<close> raises: on a text that is not JSON, and on an integer of more than
  4300 digits. The fuel bounds the depth of the recursion: an opening bracket takes two
  units and has its closing bracket, a further member or element takes one unit and has
  its comma, so the length of the text is enough. The recursion limit of the interpreter,
  which makes \<open>json.loads\<close> raise on a text nested some thousand levels deep, is not
  modelled.
\<close>

definition json_ws :: "nat \<Rightarrow> bool" where
  "json_ws c \<longleftrightarrow> c = 32 \<or> c = 9 \<or> c = 10 \<or> c = 13"

definition hex_digit :: "nat \<Rightarrow> nat option" where
  "hex_digit c =
     (if 48 \<le> c \<and> c \<le> 57 then Some (c - 48)
      else if 97 \<le> c \<and> c \<le> 102 then Some (c - 87)
      else if 65 \<le> c \<and> c \<le> 70 then Some (c - 55)
      else None)"

definition hex4 :: "nat \<Rightarrow> nat \<Rightarrow> nat \<Rightarrow> nat \<Rightarrow> nat option" where
  "hex4 a b c d =
     (case (hex_digit a, hex_digit b, hex_digit c, hex_digit d) of
        (Some x, Some y, Some z, Some u) \<Rightarrow> Some (((x * 16 + y) * 16 + z) * 16 + u)
      | _ \<Rightarrow> None)"

text \<open>
  The body of a string, after its opening quote, as code units: each is marked when it
  was written as a \<open>\\u\<close> escape. An escaped high surrogate followed by an escaped low
  surrogate is one code point; any other surrogate stays in the string as it is.
\<close>

definition json_escape :: "nat \<Rightarrow> nat option" where
  "json_escape e =
     (if e = 34 then Some 34 else if e = 92 then Some 92 else if e = 47 then Some 47
      else if e = 98 then Some 8 else if e = 102 then Some 12
      else if e = 110 then Some 10 else if e = 114 then Some 13
      else if e = 116 then Some 9 else None)"

fun json_units :: "pystr \<Rightarrow> ((bool \<times> nat) list \<times> pystr) option" where
  "json_units [] = None"
| "json_units (c # r) =
     (if c = 34 then Some ([], r)
      else if c < 32 then None
      else if c = 92 then
        (case r of
           [] \<Rightarrow> None
         | e # r1 \<Rightarrow>
             if e = 117 then
               (case r1 of
                  a # b # c # d # r2 \<Rightarrow>
                    (case hex4 a b c d of
                       None \<Rightarrow> None
                     | Some u \<Rightarrow> map_option (\<lambda>(t, r'). ((True, u) # t, r')) (json_units r2))
                | _ \<Rightarrow> None)
             else
               (case json_escape e of
                  None \<Rightarrow> None
                | Some x \<Rightarrow> map_option (\<lambda>(t, r'). ((False, x) # t, r')) (json_units r1)))
      else map_option (\<lambda>(t, r'). ((False, c) # t, r')) (json_units r))"

fun join_surrogates :: "(bool \<times> nat) list \<Rightarrow> pystr" where
  "join_surrogates [] = []"
| "join_surrogates [(e, c)] = [c]"
| "join_surrogates ((e, hi) # (e', lo) # us) =
     (if e \<and> e' \<and> 55296 \<le> hi \<and> hi \<le> 56319 \<and> 56320 \<le> lo \<and> lo \<le> 57343
      then (65536 + (hi - 55296) * 1024 + (lo - 56320)) # join_surrogates us
      else hi # join_surrogates ((e', lo) # us))"

definition json_string :: "pystr \<Rightarrow> (pystr \<times> pystr) option" where
  "json_string s = map_option (\<lambda>(us, r). (join_surrogates us, r)) (json_units s)"

definition is_digit :: "nat \<Rightarrow> bool" where
  "is_digit c \<longleftrightarrow> 48 \<le> c \<and> c \<le> 57"

definition nat_of_digits :: "pystr \<Rightarrow> nat" where
  "nat_of_digits ds = foldl (\<lambda>n c. n * 10 + (c - 48)) 0 ds"

text \<open>
  A number: an optional minus sign; \<open>0\<close>, or digits that do not start with \<open>0\<close>; an
  optional fraction (a point and at least one digit); an optional exponent (\<open>e\<close> or \<open>E\<close>,
  an optional sign, at least one digit). Without fraction and exponent it is an integer,
  otherwise a float. What follows the longest such number is left to the caller.
\<close>

definition json_number :: "pystr \<Rightarrow> (json \<times> pystr) option" where
  "json_number s =
     (let neg = (s \<noteq> [] \<and> hd s = 45);
          body = (if neg then tl s else s);
          ds = takeWhile is_digit body;
          int_part = (if ds \<noteq> [] \<and> hd ds = 48 then [48] else ds);
          r = drop (length int_part) body;
          frac = (if r \<noteq> [] \<and> hd r = 46 then takeWhile is_digit (tl r) else []);
          r1 = (if frac = [] then r else drop (Suc (length frac)) r);
          has_e = (r1 \<noteq> [] \<and> (hd r1 = 101 \<or> hd r1 = 69));
          signed = (has_e \<and> tl r1 \<noteq> [] \<and> (hd (tl r1) = 43 \<or> hd (tl r1) = 45));
          er = (if signed then tl (tl r1) else tl r1);
          ed = (if has_e then takeWhile is_digit er else []);
          r2 = (if ed = [] then r1 else drop (length ed) er);
          ev = (if signed \<and> hd (tl r1) = 45 then - int (nat_of_digits ed) else int (nat_of_digits ed));
          sgn = (\<lambda>n. if neg then - int n else int n)
      in if int_part = [] then None
         else if frac = [] \<and> ed = [] then
           (if length int_part > 4300 then None
            else Some (JInt (sgn (nat_of_digits int_part)), r))
         else Some (JFloat (Decimal (sgn (nat_of_digits (int_part @ frac))) (ev - int (length frac))),
                    r2))"

fun json_value :: "nat \<Rightarrow> pystr \<Rightarrow> (json \<times> pystr) option"
  and json_members :: "nat \<Rightarrow> (pystr, json) dict \<Rightarrow> pystr \<Rightarrow> (json \<times> pystr) option"
  and json_elements :: "nat \<Rightarrow> json list \<Rightarrow> pystr \<Rightarrow> (json \<times> pystr) option" where
  "json_value 0 s = None"
| "json_value (Suc n) s =
     (case dropWhile json_ws s of
        [] \<Rightarrow> None
      | c # r \<Rightarrow>
          if c = 34 then map_option (\<lambda>(t, r'). (JStr t, r')) (json_string r)
          else if c = 123 then
            (case dropWhile json_ws r of
               [] \<Rightarrow> None
             | c' # r' \<Rightarrow> if c' = 125 then Some (JDict [], r') else json_members n [] r)
          else if c = 91 then
            (case dropWhile json_ws r of
               [] \<Rightarrow> None
             | c' # r' \<Rightarrow> if c' = 93 then Some (JList [], r') else json_elements n [] r)
          else if take 4 (c # r) = ascii ''true'' then Some (JBool True, drop 3 r)
          else if take 5 (c # r) = ascii ''false'' then Some (JBool False, drop 4 r)
          else if take 4 (c # r) = ascii ''null'' then Some (JNull, drop 3 r)
          else if take 3 (c # r) = ascii ''NaN'' then Some (JFloat NaN, drop 2 r)
          else if take 8 (c # r) = ascii ''Infinity'' then Some (JFloat PosInf, drop 7 r)
          else if take 9 (c # r) = ascii ''-Infinity'' then Some (JFloat NegInf, drop 8 r)
          else json_number (c # r))"
| "json_members 0 acc s = None"
| "json_members (Suc n) acc s =
     (case dropWhile json_ws s of
        [] \<Rightarrow> None
      | q # r \<Rightarrow>
          if q \<noteq> 34 then None
          else
            (case json_string r of
               None \<Rightarrow> None
             | Some (k, r1) \<Rightarrow>
                 (case dropWhile json_ws r1 of
                    [] \<Rightarrow> None
                  | colon # r2 \<Rightarrow>
                      if colon \<noteq> 58 then None
                      else
                        (case json_value n r2 of
                           None \<Rightarrow> None
                         | Some (v, r3) \<Rightarrow>
                             (case dropWhile json_ws r3 of
                                [] \<Rightarrow> None
                              | d # r4 \<Rightarrow>
                                  if d = 44 then json_members n (dict_set k v acc) r4
                                  else if d = 125 then Some (JDict (dict_set k v acc), r4)
                                  else None)))))"
| "json_elements 0 acc s = None"
| "json_elements (Suc n) acc s =
     (case json_value n s of
        None \<Rightarrow> None
      | Some (v, r) \<Rightarrow>
          (case dropWhile json_ws r of
             [] \<Rightarrow> None
           | d # r1 \<Rightarrow>
               if d = 44 then json_elements n (acc @ [v]) r1
               else if d = 93 then Some (JList (acc @ [v]), r1)
               else None))"

definition json_loads :: "pystr \<Rightarrow> json option" where
  "json_loads s =
     (case json_value (Suc (length s)) s of
        None \<Rightarrow> None
      | Some (v, r) \<Rightarrow> if dropWhile json_ws r = [] then Some v else None)"

text \<open>
  Modelled from the spec: the constructor \<open>MessageChunk(**data)\<close> of models.py, which is
  not among the sources. The event object has at least a \<open>role\<close> field, an optional
  \<open>content\<close> field that is an object, and a \<open>finished\<close> boolean flag; a decoded value
  where required fields are absent or of the wrong shape is skipped.
\<close>

definition MessageChunk_of :: "json \<Rightarrow> MessageChunk option" where
  "MessageChunk_of data =
     (case data of
        JDict d \<Rightarrow>
          (case (dict_get d (ascii ''role''), dict_get d (ascii ''finished'')) of
             (Some (JStr r), Some (JBool f)) \<Rightarrow>
               (case dict_get d (ascii ''content'') of
                  None \<Rightarrow> Some \<lparr>role = r, content = None, finished = f\<rparr>
                | Some JNull \<Rightarrow> Some \<lparr>role = r, content = None, finished = f\<rparr>
                | Some (JDict c) \<Rightarrow> Some \<lparr>role = r, content = Some c, finished = f\<rparr>
                | Some _ \<Rightarrow> None)
           | _ \<Rightarrow> None)
      | _ \<Rightarrow> None)"

definition decode_event :: "pystr \<Rightarrow> MessageChunk option" where
  "decode_event s = (case json_loads s of None \<Rightarrow> None | Some data \<Rightarrow> MessageChunk_of data)"

section \<open>Exceptions, the remote service and the clock\<close>

text \<open>
  The exceptions the program tells apart: its own \<open>ApiError\<close> (a message and, where
  available, a status code), \<open>httpx.RequestError\<close>, and any other \<open>Exception\<close>. The last
  two carry their text, as \<open>str(e)\<close> gives it.
\<close>

datatype exn = ApiError pystr "int option" | RequestError pystr | Exception pystr

text \<open>
  Modelled from the spec: the class \<open>ApiError\<close> of models.py, which is not among the
  sources. A remote error has a message and a status where available; its text is its
  message.
\<close>

fun str_exn :: "exn \<Rightarrow> pystr" where
  "str_exn (ApiError m st) = m"
| "str_exn (RequestError m) = m"
| "str_exn (Exception m) = m"

text \<open>
  A request is logged with its URL and its JSON body. What the service does with the
  \<open>n\<close>-th request is an outcome: the transport raises, or a response arrives. A response
  has a status, what \<open>ConversationResponse(**response.json()).uuid\<close> gives for its body
  (\<open>Inl\<close> the text of the exception it raises), the lines of its body as a stream, and the
  transport error that ends the stream early, if any.
\<close>

datatype request_body = ConversationRequest pystr pystr pystr | MessageRequest pystr

record http_request =
  url :: pystr
  body :: request_body

record http_response =
  status_code :: int
  uuid :: "pystr + pystr"
  lines :: "pystr list"
  stream_error :: "pystr option"

datatype http_outcome =
    TransportError pystr
  | OtherError pystr
  | Responded http_response

text \<open>
  Everything the program reads from outside is a field of the world: the outcome of the
  \<open>n\<close>-th HTTP request, the value of the \<open>n\<close>-th \<open>datetime.now()\<close>, the decoder of event
  lines (\<open>json.loads\<close> and \<open>MessageChunk\<close>), the text of the \<open>ValueError\<close> that \<open>max\<close>
  raises on an empty sequence and of the \<open>OverflowError\<close> of \<open>timedelta\<close>, the settings
  source of the configuration and the text of
  its validation errors, the exception that the construction of the HTTP client raises
  (if any), and the \<open>unicodedata\<close> cleaning of a non-empty answer.
\<close>

record world =
  http :: "nat \<Rightarrow> http_outcome"
  clock :: "nat \<Rightarrow> datetime"
  decode :: "pystr \<Rightarrow> MessageChunk option"
  max_empty_text :: pystr
  overflow_text :: pystr
  environment :: settings
  validation_text :: "string list \<Rightarrow> pystr"
  client_error :: "pystr option"
  unicode_clean :: "pystr \<Rightarrow> pystr"

section \<open>The API client (api_client.py)\<close>

record OneCApiClient =
  config :: Config
  client_base_url :: pystr
  sessions :: "(pystr, ConversationSession) dict"
  requests :: "http_request list"
  clock_reads :: nat

definition rstrip_slash :: "pystr \<Rightarrow> pystr" where
  "rstrip_slash s = rev (dropWhile (\<lambda>c. c = 47) (rev s))"

definition init_client :: "Config \<Rightarrow> OneCApiClient" where
  "init_client cfg =
     \<lparr>config = cfg, client_base_url = rstrip_slash (base_url cfg), sessions = [],
      requests = [], clock_reads = 0\<rparr>"

text \<open>\<open>datetime.now()\<close> and one HTTP request.\<close>

definition now :: "world \<Rightarrow> OneCApiClient \<Rightarrow> datetime \<times> OneCApiClient" where
  "now w c = (clock w (clock_reads c), c\<lparr>clock_reads := Suc (clock_reads c)\<rparr>)"

definition send_request ::
  "world \<Rightarrow> http_request \<Rightarrow> OneCApiClient \<Rightarrow> http_outcome \<times> OneCApiClient" where
  "send_request w rq c = (http w (length (requests c)), c\<lparr>requests := requests c @ [rq]\<rparr>)"

text \<open>\<open>x or d\<close> for an optional string \<open>x\<close>.\<close>

definition or_default :: "pystr option \<Rightarrow> pystr \<Rightarrow> pystr" where
  "or_default x d = (case x of None \<Rightarrow> d | Some s \<Rightarrow> if s = [] then d else s)"

text \<open>
  The messages of the client are Cyrillic texts; they are given by their code points.
  In the order of the definitions, for \<open>create_conversation\<close>: the error of creating the
  conversation (before the status code), the network error, the unexpected error; then
  the same three for \<open>send_message\<close>. Each ends with a colon and a space.
\<close>

definition msg_create_status :: pystr where
  "msg_create_status = [1054, 1096, 1080, 1073, 1082, 1072, 32, 1089, 1086, 1079, 1076, 1072,
     1085, 1080, 1103, 32, 1076, 1080, 1089, 1082, 1091, 1089, 1089, 1080, 1080, 58, 32]"

definition msg_create_network :: pystr where
  "msg_create_network = [1054, 1096, 1080, 1073, 1082, 1072, 32, 1089, 1077, 1090, 1080, 32,
     1087, 1088, 1080, 32, 1089, 1086, 1079, 1076, 1072, 1085, 1080, 1080, 32, 1076, 1080, 1089,
     1082, 1091, 1089, 1089, 1080, 1080, 58, 32]"

definition msg_create_unexpected :: pystr where
  "msg_create_unexpected = [1053, 1077, 1086, 1078, 1080, 1076, 1072, 1085, 1085, 1072, 1103,
     32, 1086, 1096, 1080, 1073, 1082, 1072, 32, 1087, 1088, 1080, 32, 1089, 1086, 1079, 1076,
     1072, 1085, 1080, 1080, 32, 1076, 1080, 1089, 1082, 1091, 1089, 1089, 1080, 1080, 58, 32]"

definition msg_send_status :: pystr where
  "msg_send_status = [1054, 1096, 1080, 1073, 1082, 1072, 32, 1086, 1090, 1087, 1088, 1072,
     1074, 1082, 1080, 32, 1089, 1086, 1086, 1073, 1097, 1077, 1085, 1080, 1103, 58, 32]"

definition msg_send_network :: pystr where
  "msg_send_network = [1054, 1096, 1080, 1073, 1082, 1072, 32, 1089, 1077, 1090, 1080, 32,
     1087, 1088, 1080, 32, 1086, 1090, 1087, 1088, 1072, 1074, 1082, 1077, 32, 1089, 1086, 1086,
     1073, 1097, 1077, 1085, 1080, 1103, 58, 32]"

definition msg_send_unexpected :: pystr where
  "msg_send_unexpected = [1053, 1077, 1086, 1078, 1080, 1076, 1072, 1085, 1085, 1072, 1103, 32,
     1086, 1096, 1080, 1073, 1082, 1072, 32, 1087, 1088, 1080, 32, 1086, 1090, 1087, 1088, 1072,
     1074, 1082, 1077, 32, 1089, 1086, 1086, 1073, 1097, 1077, 1085, 1080, 1103, 58, 32]"

subsection \<open>\<open>create_conversation\<close>\<close>

text \<open>
  The body of the \<open>try\<close>: the request, the test of the status, the decoding of the
  answer and the registration of the session.
\<close>

definition create_conversation_try ::
  "world \<Rightarrow> pystr option \<Rightarrow> pystr option \<Rightarrow> OneCApiClient \<Rightarrow> (exn + pystr) \<times> OneCApiClient" where
  "create_conversation_try w programming_lang script_lang c =
     (let request_data = ConversationRequest (ui_language (config c))
            (or_default programming_lang (programming_language (config c)))
            (or_default script_lang (script_language (config c)));
          (outcome, c1) = send_request w
            \<lparr>url = client_base_url c @ ascii ''/chat_api/v1/conversations/'', body = request_data\<rparr> c
      in case outcome of
           TransportError m \<Rightarrow> (Inl (RequestError m), c1)
         | OtherError m \<Rightarrow> (Inl (Exception m), c1)
         | Responded response \<Rightarrow>
             if status_code response \<noteq> 200 then
               (Inl (ApiError (msg_create_status @ str_int (status_code response))
                      (Some (status_code response))), c1)
             else
               (case uuid response of
                  Inl m \<Rightarrow> (Inl (Exception m), c1)
                | Inr cid \<Rightarrow>
                    (let (t, c2) = now w c1
                     in (Inr cid, c2\<lparr>sessions := dict_set cid (new_session t cid) (sessions c2)\<rparr>))))"

text \<open>
  The two handlers of the \<open>try\<close>, in their order. An \<open>ApiError\<close> raised in the body is
  an \<open>Exception\<close> that is not a \<open>RequestError\<close>, so the second handler takes it.
\<close>

fun create_conversation_except :: "exn \<Rightarrow> exn" where
  "create_conversation_except (RequestError m) = ApiError (msg_create_network @ m) None"
| "create_conversation_except e = ApiError (msg_create_unexpected @ str_exn e) None"

definition create_conversation ::
  "world \<Rightarrow> pystr option \<Rightarrow> pystr option \<Rightarrow> OneCApiClient \<Rightarrow> (exn + pystr) \<times> OneCApiClient" where
  "create_conversation w programming_lang script_lang c =
     (case create_conversation_try w programming_lang script_lang c of
        (Inl e, c') \<Rightarrow> (Inl (create_conversation_except e), c')
      | (Inr cid, c') \<Rightarrow> (Inr cid, c'))"

subsection \<open>\<open>send_message\<close>\<close>

text \<open>
  The registration of an unknown id and the update of the session's use, which stand
  before the request in the body of the \<open>try\<close>.
\<close>

definition touch :: "world \<Rightarrow> pystr \<Rightarrow> OneCApiClient \<Rightarrow> OneCApiClient" where
  "touch w cid c =
     (let c1 = (if cid \<notin> set (dict_keys (sessions c)) then
                  (let (t, c') = now w c
                   in c'\<lparr>sessions := dict_set cid (new_session t cid) (sessions c')\<rparr>)
                else c);
          (t, c2) = now w c1
      in case dict_get (sessions c2) cid of
           None \<Rightarrow> c2
         | Some s \<Rightarrow> c2\<lparr>sessions := dict_set cid (update_usage t s) (sessions c2)\<rparr>)"

definition send_message_try ::
  "world \<Rightarrow> pystr \<Rightarrow> pystr \<Rightarrow> OneCApiClient \<Rightarrow> (exn + pystr) \<times> OneCApiClient" where
  "send_message_try w cid msg c =
     (let c1 = touch w cid c;
          request_data = MessageRequest msg;
          (outcome, c2) = send_request w
            \<lparr>url = client_base_url c1 @ ascii ''/chat_api/v1/conversations/'' @ cid @ ascii ''/messages'',
             body = request_data\<rparr> c1
      in case outcome of
           TransportError m \<Rightarrow> (Inl (RequestError m), c2)
         | OtherError m \<Rightarrow> (Inl (Exception m), c2)
         | Responded response \<Rightarrow>
             if status_code response \<noteq> 200 then
               (Inl (ApiError (msg_send_status @ str_int (status_code response))
                      (Some (status_code response))), c2)
             else
               (case sse_loop (decode w) [] (lines response) of
                  (full_text, unread, broke) \<Rightarrow>
                    (case stream_error response of
                       None \<Rightarrow> (Inr (strip full_text), c2)
                     | Some m \<Rightarrow>
                         if broke then (Inr (strip full_text), c2)
                         else (Inl (RequestError m), c2))))"

fun send_message_except :: "exn \<Rightarrow> exn" where
  "send_message_except (RequestError m) = ApiError (msg_send_network @ m) None"
| "send_message_except e = ApiError (msg_send_unexpected @ str_exn e) None"

definition send_message ::
  "world \<Rightarrow> pystr \<Rightarrow> pystr \<Rightarrow> OneCApiClient \<Rightarrow> (exn + pystr) \<times> OneCApiClient" where
  "send_message w cid msg c =
     (case send_message_try w cid msg c of
        (Inl e, c') \<Rightarrow> (Inl (send_message_except e), c')
      | (Inr answer, c') \<Rightarrow> (Inr answer, c'))"

subsection \<open>\<open>_cleanup_old_sessions\<close> and \<open>get_or_create_session\<close>\<close>

definition expired :: "datetime \<Rightarrow> int \<Rightarrow> ConversationSession \<Rightarrow> bool" where
  "expired current_time ttl_delta session \<longleftrightarrow> current_time - last_used session > ttl_delta"

text \<open>
  The sweep reads the clock, then builds the \<open>timedelta\<close> of the TTL, which may raise
  before any session is removed.
\<close>

definition cleanup_old_sessions ::
  "world \<Rightarrow> OneCApiClient \<Rightarrow> (exn + unit) \<times> OneCApiClient" where
  "cleanup_old_sessions w c =
     (let (current_time, c1) = now w c
      in case timedelta_seconds (session_ttl (config c1)) of
           None \<Rightarrow> (Inl (Exception (overflow_text w)), c1)
         | Some ttl_delta \<Rightarrow>
             (let expired_sessions =
                    map fst (filter (\<lambda>kv. expired current_time ttl_delta (snd kv)) (sessions c1))
              in (Inr (), c1\<lparr>sessions := fold dict_del expired_sessions (sessions c1)\<rparr>)))"

definition get_or_create_session ::
  "world \<Rightarrow> bool \<Rightarrow> pystr option \<Rightarrow> OneCApiClient \<Rightarrow> (exn + pystr) \<times> OneCApiClient" where
  "get_or_create_session w create_new programming_lang c =
     (case cleanup_old_sessions w c of
        (Inl e, c1) \<Rightarrow> (Inl e, c1)
      | (Inr u, c1) \<Rightarrow>
          if create_new \<or> sessions c1 = [] then create_conversation w programming_lang None c1
          else
            (let c2 =
                   (if int (length (sessions c1)) \<ge> max_active_sessions (config c1) then
                      (case min_by (\<lambda>kv. last_used (snd kv)) (sessions c1) of
                         None \<Rightarrow> c1 \<comment> \<open>not reached: \<open>sessions c1\<close> is not empty here\<close>
                       | Some oldest \<Rightarrow> c1\<lparr>sessions := dict_del (fst oldest) (sessions c1)\<rparr>)
                    else c1)
             in case max_by (\<lambda>kv. last_used (snd kv)) (sessions c2) of
                  None \<Rightarrow> (Inl (Exception (max_empty_text w)), c2)
                | Some recent \<Rightarrow> (Inr (fst recent), c2)))"

section \<open>The tool server (mcp_server.py)\<close>

text \<open>
  The arguments of a tool call, as the tools' input schemas type them: each property is
  absent or has its declared JSON type. The handlers read them with \<open>arguments.get\<close>
  and a default. A result is the text of its single \<open>TextContent\<close>.
\<close>

record arguments =
  arg_question :: "pystr option"
  arg_programming_language :: "pystr option"
  arg_create_new_session :: "bool option"
  arg_syntax_element :: "pystr option"
  arg_context :: "pystr option"
  arg_code :: "pystr option"
  arg_check_type :: "pystr option"

definition get_str :: "pystr option \<Rightarrow> pystr \<Rightarrow> pystr" where
  "get_str x d = (case x of None \<Rightarrow> d | Some v \<Rightarrow> v)"

definition get_bool :: "bool option \<Rightarrow> bool \<Rightarrow> bool" where
  "get_bool x d = (case x of None \<Rightarrow> d | Some v \<Rightarrow> v)"

record OneCMcpServer =
  server_config :: "Config option"
  api_client :: "OneCApiClient option"

definition sanitize_text :: "world \<Rightarrow> pystr \<Rightarrow> pystr" where
  "sanitize_text w text = (if text = [] then text else unicode_clean w text)"

text \<open>
  The texts of the server, by their code points: the prefixes of the configuration
  error (with the hint, after it, to set \<open>ONEC_AI_TOKEN\<close>), of the connection error, of
  an unknown tool, of an error of the service (\<open>ApiError\<close>) and of an unexpected error;
  the three messages for an empty question, syntax element and code; the frames of the
  three answers; the descriptions of the kinds of check and the frame of its question.
\<close>

definition msg_config_error :: pystr where
  "msg_config_error = [1054, 1096, 1080, 1073, 1082, 1072, 32, 1082, 1086, 1085, 1092, 1080,
     1075, 1091, 1088, 1072, 1094, 1080, 1080, 58, 32]"

definition msg_config_hint :: pystr where
  "msg_config_hint = [10, 1059, 1089, 1090, 1072, 1085, 1086, 1074, 1080, 1090, 1077, 32, 1087,
     1077, 1088, 1077, 1084, 1077, 1085, 1085, 1091, 1102, 32, 1086, 1082, 1088, 1091, 1078, 1077,
     1085, 1080, 1103, 32, 79, 78, 69, 67, 95, 65, 73, 95, 84, 79, 75, 69, 78]"

definition msg_connect_error :: pystr where
  "msg_connect_error = [1054, 1096, 1080, 1073, 1082, 1072, 32, 1087, 1086, 1076, 1082, 1083,
     1102, 1095, 1077, 1085, 1080, 1103, 32, 1082, 32, 65, 80, 73, 58, 32]"

definition msg_unknown_tool :: pystr where
  "msg_unknown_tool = [1053, 1077, 1080, 1079, 1074, 1077, 1089, 1090, 1085, 1099, 1081, 32,
     1080, 1085, 1089, 1090, 1088, 1091, 1084, 1077, 1085, 1090, 58, 32]"

definition msg_api_error :: pystr where
  "msg_api_error = [1054, 1096, 1080, 1073, 1082, 1072, 32, 1087, 1088, 1080, 32, 1086, 1073,
     1088, 1072, 1097, 1077, 1085, 1080, 1080, 32, 1082, 32, 49, 1057, 46, 97, 105, 58, 32]"

definition msg_unexpected_error :: pystr where
  "msg_unexpected_error = [1055, 1088, 1086, 1080, 1079, 1086, 1096, 1083, 1072, 32, 1085, 1077,
     1086, 1078, 1080, 1076, 1072, 1085, 1085, 1072, 1103, 32, 1086, 1096, 1080, 1073, 1082, 1072,
     58, 32]"

definition msg_empty_question :: pystr where
  "msg_empty_question = [1054, 1096, 1080, 1073, 1082, 1072, 58, 32, 1042, 1086, 1087, 1088,
     1086, 1089, 32, 1085, 1077, 32, 1084, 1086, 1078, 1077, 1090, 32, 1073, 1099, 1090, 1100, 32,
     1087, 1091, 1089, 1090, 1099, 1084]"

definition msg_empty_syntax :: pystr where
  "msg_empty_syntax = [1054, 1096, 1080, 1073, 1082, 1072, 58, 32, 1069, 1083, 1077, 1084, 1077,
     1085, 1090, 32, 1089, 1080, 1085, 1090, 1072, 1082, 1089, 1080, 1089, 1072, 32, 1085, 1077,
     32, 1084, 1086, 1078, 1077, 1090, 32, 1073, 1099, 1090, 1100, 32, 1087, 1091, 1089, 1090,
     1099, 1084]"

definition msg_empty_code :: pystr where
  "msg_empty_code = [1054, 1096, 1080, 1073, 1082, 1072, 58, 32, 1050, 1086, 1076, 32, 1076,
     1083, 1103, 32, 1087, 1088, 1086, 1074, 1077, 1088, 1082, 1080, 32, 1085, 1077, 32, 1084,
     1086, 1078, 1077, 1090, 32, 1073, 1099, 1090, 1100, 32, 1087, 1091, 1089, 1090, 1099, 1084]"

definition msg_answer_head :: pystr where
  "msg_answer_head = [1054, 1090, 1074, 1077, 1090, 32, 1086, 1090, 32, 49, 1057, 46, 97, 105,
     58, 10, 10]"

definition msg_answer_session :: pystr where
  "msg_answer_session = [10, 10, 1057, 1077, 1089, 1089, 1080, 1103, 58, 32]"

definition msg_explain_question :: pystr where
  "msg_explain_question = [1054, 1073, 1098, 1103, 1089, 1085, 1080, 32, 1089, 1080, 1085, 1090,
     1072, 1082, 1089, 1080, 1089, 32, 1080, 32, 1080, 1089, 1087, 1086, 1083, 1100, 1079, 1086,
     1074, 1072, 1085, 1080, 1077, 58, 32]"

definition msg_explain_context :: pystr where
  "msg_explain_context = [32, 1074, 32, 1082, 1086, 1085, 1090, 1077, 1082, 1089, 1090, 1077,
     58, 32]"

definition msg_explain_head :: pystr where
  "msg_explain_head = [1054, 1073, 1098, 1103, 1089, 1085, 1077, 1085, 1080, 1077, 32, 1089,
     1080, 1085, 1090, 1072, 1082, 1089, 1080, 1089, 1072, 32, 39]"

definition msg_explain_tail :: pystr where
  "msg_explain_tail = [39, 58, 10, 10]"

definition desc_syntax :: pystr where
  "desc_syntax = [1089, 1080, 1085, 1090, 1072, 1082, 1089, 1080, 1095, 1077, 1089, 1082, 1080,
     1077, 32, 1086, 1096, 1080, 1073, 1082, 1080]"

definition desc_logic :: pystr where
  "desc_logic = [1083, 1086, 1075, 1080, 1095, 1077, 1089, 1082, 1080, 1077, 32, 1086, 1096,
     1080, 1073, 1082, 1080, 32, 1080, 32, 1087, 1086, 1090, 1077, 1085, 1094, 1080, 1072, 1083,
     1100, 1085, 1099, 1077, 32, 1087, 1088, 1086, 1073, 1083, 1077, 1084, 1099]"

definition desc_performance :: pystr where
  "desc_performance = [1087, 1088, 1086, 1073, 1083, 1077, 1084, 1099, 32, 1087, 1088, 1086,
     1080, 1079, 1074, 1086, 1076, 1080, 1090, 1077, 1083, 1100, 1085, 1086, 1089, 1090, 1080, 32,
     1080, 32, 1086, 1087, 1090, 1080, 1084, 1080, 1079, 1072, 1094, 1080, 1080]"

definition desc_default :: pystr where
  "desc_default = [1086, 1096, 1080, 1073, 1082, 1080]"

definition msg_check_question :: pystr where
  "msg_check_question = [1055, 1088, 1086, 1074, 1077, 1088, 1100, 32, 1101, 1090, 1086, 1090,
     32, 1082, 1086, 1076, 32, 49, 1057, 32, 1085, 1072, 32]"

definition msg_check_advice :: pystr where
  "msg_check_advice = [32, 1080, 32, 1076, 1072, 1081, 32, 1088, 1077, 1082, 1086, 1084, 1077,
     1085, 1076, 1072, 1094, 1080, 1080, 58, 10, 10, 96, 96, 96, 49, 99, 10]"

definition msg_check_fence :: pystr where
  "msg_check_fence = [10, 96, 96, 96]"

definition msg_check_head :: pystr where
  "msg_check_head = [1055, 1088, 1086, 1074, 1077, 1088, 1082, 1072, 32, 1082, 1086, 1076, 1072,
     32, 1085, 1072, 32]"

definition msg_check_tail :: pystr where
  "msg_check_tail = [58, 10, 10]"

subsection \<open>The three handlers\<close>

definition handle_ask_1c_ai ::
  "world \<Rightarrow> arguments \<Rightarrow> OneCApiClient \<Rightarrow> (exn + pystr) \<times> OneCApiClient" where
  "handle_ask_1c_ai w args c =
     (let question = get_str (arg_question args) [];
          programming_lang = get_str (arg_programming_language args) [];
          create_new_session = get_bool (arg_create_new_session args) False
      in if strip question = [] then (Inr msg_empty_question, c)
         else
           (case get_or_create_session w create_new_session
                   (if programming_lang = [] then None else Some programming_lang) c of
              (Inl e, c1) \<Rightarrow> (Inl e, c1)
            | (Inr cid, c1) \<Rightarrow>
                (case send_message w cid question c1 of
                   (Inl e, c2) \<Rightarrow> (Inl e, c2)
                 | (Inr answer, c2) \<Rightarrow>
                     (Inr (msg_answer_head @ sanitize_text w answer @ msg_answer_session @ cid), c2))))"

definition handle_explain_syntax ::
  "world \<Rightarrow> arguments \<Rightarrow> OneCApiClient \<Rightarrow> (exn + pystr) \<times> OneCApiClient" where
  "handle_explain_syntax w args c =
     (let syntax_element = get_str (arg_syntax_element args) [];
          context = get_str (arg_context args) []
      in if strip syntax_element = [] then (Inr msg_empty_syntax, c)
         else
           (let question = msg_explain_question @ syntax_element @
                  (if context \<noteq> [] then msg_explain_context @ context else [])
            in case get_or_create_session w False None c of
                 (Inl e, c1) \<Rightarrow> (Inl e, c1)
               | (Inr cid, c1) \<Rightarrow>
                   (case send_message w cid question c1 of
                      (Inl e, c2) \<Rightarrow> (Inl e, c2)
                    | (Inr answer, c2) \<Rightarrow>
                        (Inr (msg_explain_head @ syntax_element @ msg_explain_tail @
                              sanitize_text w answer), c2))))"

definition check_descriptions :: "pystr \<Rightarrow> pystr" where
  "check_descriptions check_type =
     (if check_type = ascii ''syntax'' then desc_syntax
      else if check_type = ascii ''logic'' then desc_logic
      else if check_type = ascii ''performance'' then desc_performance
      else desc_default)"

definition handle_check_code ::
  "world \<Rightarrow> arguments \<Rightarrow> OneCApiClient \<Rightarrow> (exn + pystr) \<times> OneCApiClient" where
  "handle_check_code w args c =
     (let code = get_str (arg_code args) [];
          check_type = get_str (arg_check_type args) (ascii ''syntax'')
      in if strip code = [] then (Inr msg_empty_code, c)
         else
           (let check_desc = check_descriptions check_type;
                question = msg_check_question @ check_desc @ msg_check_advice @ code @ msg_check_fence
            in case get_or_create_session w False None c of
                 (Inl e, c1) \<Rightarrow> (Inl e, c1)
               | (Inr cid, c1) \<Rightarrow>
                   (case send_message w cid question c1 of
                      (Inl e, c2) \<Rightarrow> (Inl e, c2)
                    | (Inr answer, c2) \<Rightarrow>
                        (Inr (msg_check_head @ check_desc @ msg_check_tail @
                              sanitize_text w answer), c2))))"

subsection \<open>\<open>handle_call_tool\<close>\<close>

text \<open>
  The dispatch inside the \<open>try\<close> of \<open>handle_call_tool\<close>, and its two handlers: an
  \<open>ApiError\<close> gives its message after a fixed prefix, any other exception its text after
  another.
\<close>

definition dispatch ::
  "world \<Rightarrow> pystr \<Rightarrow> arguments \<Rightarrow> OneCApiClient \<Rightarrow> (exn + pystr) \<times> OneCApiClient" where
  "dispatch w name args c =
     (if name = ascii ''ask_1c_ai'' then handle_ask_1c_ai w args c
      else if name = ascii ''explain_1c_syntax'' then handle_explain_syntax w args c
      else if name = ascii ''check_1c_code'' then handle_check_code w args c
      else (Inr (msg_unknown_tool @ name), c))"

fun call_tool_except :: "exn \<Rightarrow> pystr" where
  "call_tool_except (ApiError m st) = msg_api_error @ m"
| "call_tool_except e = msg_unexpected_error @ str_exn e"

definition handle_call_tool ::
  "world \<Rightarrow> pystr \<Rightarrow> arguments \<Rightarrow> OneCMcpServer \<Rightarrow> pystr \<times> OneCMcpServer" where
  "handle_call_tool w name args srv =
     (case (case server_config srv of
              Some cfg \<Rightarrow> Inr (cfg, srv)
            | None \<Rightarrow>
                (case get_config (environment w) of
                   Inl errs \<Rightarrow> Inl (msg_config_error @ validation_text w errs @ msg_config_hint)
                 | Inr cfg \<Rightarrow> Inr (cfg, srv\<lparr>server_config := Some cfg\<rparr>))) of
        Inl text \<Rightarrow> (text, srv)
      | Inr (cfg, srv1) \<Rightarrow>
          (case (case api_client srv1 of
                   Some c \<Rightarrow> Inr c
                 | None \<Rightarrow>
                     (case client_error w of
                        Some m \<Rightarrow> Inl (msg_connect_error @ m)
                      | None \<Rightarrow> Inr (init_client cfg))) of
             Inl text \<Rightarrow> (text, srv1)
           | Inr c \<Rightarrow>
               (case dispatch w name args c of
                  (Inl e, c') \<Rightarrow> (call_tool_except e, srv1\<lparr>api_client := Some c'\<rparr>)
                | (Inr text, c') \<Rightarrow> (text, srv1\<lparr>api_client := Some c'\<rparr>))))"

section \<open>Example data\<close>

text \<open>
  A configuration, a settings source, two kinds of responses, a world that answers the
  requests from a list of outcomes (and refuses the connection afterwards) and whose
  clock advances by a microsecond at every reading, and a client with a given store.
\<close>

definition example_config :: "int \<Rightarrow> int \<Rightarrow> Config" where
  "example_config max_sessions ttl =
     \<lparr>onec_ai_token = ascii ''token'', base_url = ascii ''https://code.1c.ai'', timeout = 30,
      ui_language = ascii ''russian'', programming_language = [], script_language = [],
      max_active_sessions = max_sessions, session_ttl = ttl\<rparr>"

definition example_settings :: settings where
  "example_settings =
     \<lparr>set_onec_ai_token = Some (ascii ''token''), set_base_url = None, set_timeout = Unset,
      set_ui_language = None, set_programming_language = None, set_script_language = None,
      set_max_active_sessions = Unset, set_session_ttl = Unset, set_other_errors = []\<rparr>"

definition created :: "pystr \<Rightarrow> http_outcome" where
  "created cid = Responded \<lparr>status_code = 200, uuid = Inr cid, lines = [], stream_error = None\<rparr>"

definition status_only :: "int \<Rightarrow> http_outcome" where
  "status_only n = Responded \<lparr>status_code = n, uuid = Inl [], lines = [], stream_error = None\<rparr>"

definition example_world :: "http_outcome list \<Rightarrow> world" where
  "example_world outcomes =
     \<lparr>http = (\<lambda>n. if n < length outcomes then outcomes ! n
                  else TransportError (ascii ''connection refused'')),
      clock = (\<lambda>n. int n),
      decode = decode_event,
      max_empty_text = ascii ''max() arg is an empty sequence'',
      overflow_text = ascii ''days out of range'',
      environment = example_settings,
      validation_text = (\<lambda>errs. ascii ''validation error''),
      client_error = None,
      unicode_clean = (\<lambda>t. t)\<rparr>"

definition session_at :: "pystr \<Rightarrow> datetime \<Rightarrow> pystr \<times> ConversationSession" where
  "session_at cid t = (cid, \<lparr>conversation_id = cid, created_at = t, last_used = t\<rparr>)"

definition example_client ::
  "int \<Rightarrow> int \<Rightarrow> (pystr, ConversationSession) dict \<Rightarrow> OneCApiClient" where
  "example_client max_sessions ttl d =
     (init_client (example_config max_sessions ttl))\<lparr>sessions := d\<rparr>"

definition example_arguments :: arguments where
  "example_arguments =
     \<lparr>arg_question = None, arg_programming_language = None, arg_create_new_session = None,
      arg_syntax_element = None, arg_context = None, arg_code = None, arg_check_type = None\<rparr>"

definition example_server :: "(pystr, ConversationSession) dict \<Rightarrow> OneCMcpServer" where
  "example_server d =
     \<lparr>server_config = Some (example_config 10 3600),
      api_client = Some (example_client 10 3600 d)\<rparr>"

text \<open>Lines of an event stream. The code point 92 is the backslash.\<close>

definition line_user_finished :: pystr where
  \<open>line_user_finished = ascii ''data: {"role":"user","finished":true}''\<close>

definition line_hi_finished :: pystr where
  \<open>line_hi_finished =
     ascii ''data: {"role":"assistant","content":{"text":"Hi"},"finished":true}''\<close>


definition line_padded :: pystr where
  \<open>line_padded =
     ascii ''data: {"role":"assistant","content":{"text":" Hel "},"finished":false}''\<close>

definition line_empty_finished :: pystr where
  \<open>line_empty_finished =
     ascii ''data: {"role":"assistant","content":{"text":""},"finished":true}''\<close>

text \<open>Ten o'clock, in microseconds after midnight.\<close>

definition ten_o_clock :: datetime where
  "ten_o_clock = 36000 * 1000000"

section \<open>Notions of the statements\<close>

text \<open>
  The session store and the requests of a server (both empty while it has no client), and
  a text that is blank: empty, or white space only.
\<close>

definition store_of :: "OneCMcpServer \<Rightarrow> (pystr, ConversationSession) dict" where
  "store_of srv = (case api_client srv of None \<Rightarrow> [] | Some c \<Rightarrow> sessions c)"

definition requests_of :: "OneCMcpServer \<Rightarrow> http_request list" where
  "requests_of srv = (case api_client srv of None \<Rightarrow> [] | Some c \<Rightarrow> requests c)"

definition blank :: "pystr \<Rightarrow> bool" where
  "blank s \<longleftrightarrow> (\<forall>ch \<in> set s. isspace ch)"

section \<open>Dicts\<close>

lemma fold_dict_del: "fold dict_del ks d = filter (\<lambda>kv. fst kv \<notin> set ks) d"
  by (induction ks arbitrary: d) (auto simp: dict_del_def intro: filter_cong)

lemma dict_ok_key_unique:
  "dict_ok d \<Longrightarrow> kv \<in> set d \<Longrightarrow> kv' \<in> set d \<Longrightarrow> fst kv = fst kv' \<Longrightarrow> kv = kv'"
  unfolding dict_ok_def by (meson distinct_map inj_onD)

lemma dict_ok_filter_keys:
  assumes "dict_ok d"
  shows "filter (\<lambda>kv. fst kv \<notin> set (map fst (filter P d))) d = filter (\<lambda>kv. \<not> P kv) d"
proof (rule filter_cong[OF refl])
  fix kv assume kv: "kv \<in> set d"
  show "(fst kv \<notin> set (map fst (filter P d))) = (\<not> P kv)"
  proof
    assume "fst kv \<notin> set (map fst (filter P d))"
    with kv show "\<not> P kv" by force
  next
    assume n: "\<not> P kv"
    show "fst kv \<notin> set (map fst (filter P d))"
    proof
      assume "fst kv \<in> set (map fst (filter P d))"
      then obtain kv' where "kv' \<in> set d" "P kv'" "fst kv' = fst kv" by auto
      with dict_ok_key_unique[OF assms kv] n show False by metis
    qed
  qed
qed

lemma dict_get_dict_set: "dict_get (dict_set k v d) k = Some v"
  by (induction d) (auto simp: dict_get_def)

lemma dict_get_None: "dict_get d k = None \<longleftrightarrow> k \<notin> set (dict_keys d)"
  by (simp add: dict_get_def dict_keys_def map_of_eq_None_iff)

lemma dict_ok_filter: "dict_ok d \<Longrightarrow> dict_ok (filter P d)"
  by (simp add: dict_ok_def distinct_map_filter)

lemma dict_keys_dict_set:
  "dict_keys (dict_set k v d) =
     (if k \<in> set (dict_keys d) then dict_keys d else dict_keys d @ [k])"
  by (induction d) (force simp: dict_keys_def)+

lemma dict_ok_dict_set: "dict_ok d \<Longrightarrow> dict_ok (dict_set k v d)"
  using dict_keys_dict_set[of k v d] by (auto simp: dict_ok_def dict_keys_def)

lemma dict_ok_dict_del: "dict_ok d \<Longrightarrow> dict_ok (dict_del k d)"
  by (simp add: dict_del_def dict_ok_filter)

lemma min_by_None: "min_by f xs = None \<longleftrightarrow> xs = []"
  by (cases xs) (auto split: option.splits)

lemma max_by_None: "max_by f xs = None \<longleftrightarrow> xs = []"
  by (cases xs) (auto split: option.splits)

lemma min_by_Some: "min_by f xs = Some m \<Longrightarrow> m \<in> set xs \<and> (\<forall>x \<in> set xs. f m \<le> f x)"
proof (induction xs arbitrary: m)
  case Nil
  then show ?case by simp
next
  case (Cons k ks)
  show ?case
  proof (cases "min_by f ks")
    case None
    then have "ks = []" by (simp add: min_by_None)
    with Cons.prems show ?thesis by simp
  next
    case (Some m')
    from Cons.IH[OF Some] have "m' \<in> set ks" "\<forall>x \<in> set ks. f m' \<le> f x" by simp_all
    with Cons.prems Some show ?thesis by (auto split: if_splits)
  qed
qed

lemma max_by_Some: "max_by f xs = Some m \<Longrightarrow> m \<in> set xs \<and> (\<forall>x \<in> set xs. f x \<le> f m)"
proof (induction xs arbitrary: m)
  case Nil
  then show ?case by simp
next
  case (Cons k ks)
  show ?case
  proof (cases "max_by f ks")
    case None
    then have "ks = []" by (simp add: max_by_None)
    with Cons.prems show ?thesis by simp
  next
    case (Some m')
    from Cons.IH[OF Some] have "m' \<in> set ks" "\<forall>x \<in> set ks. f x \<le> f m'" by simp_all
    with Cons.prems Some show ?thesis by (auto split: if_splits)
  qed
qed

lemma dict_del_length:
  "dict_ok d \<Longrightarrow> kv \<in> set d \<Longrightarrow> Suc (length (dict_del (fst kv) d)) = length d"
proof (induction d)
  case Nil
  then show ?case by simp
next
  case (Cons x d)
  show ?case
  proof (cases "fst x = fst kv")
    case True
    have "fst kv \<notin> fst ` set d" using Cons.prems(1) True by (simp add: dict_ok_def)
    then have "\<forall>y \<in> set d. fst y \<noteq> fst kv" by (metis imageI)
    then have "filter (\<lambda>y. fst y \<noteq> fst kv) d = d"
      by (intro filter_True) simp
    with True show ?thesis by (simp add: dict_del_def)
  next
    case False
    then have "kv \<in> set d" using Cons.prems(2) by auto
    moreover have "dict_ok d" using Cons.prems(1) by (simp add: dict_ok_def)
    ultimately show ?thesis using Cons.IH False by (simp add: dict_del_def)
  qed
qed

lemmas eval_defs = example_world_def example_client_def example_config_def init_client_def
  session_at_def created_def status_only_def now_def send_request_def Let_def
  touch_def send_message_def send_message_try_def create_conversation_def
  create_conversation_try_def cleanup_old_sessions_def get_or_create_session_def expired_def
  timedelta_seconds_def dict_del_def dict_get_def dict_keys_def new_session_def
  update_usage_def or_default_def dict_ok_def example_server_def example_arguments_def

section \<open>The expiry sweep\<close>

lemma timedelta_seconds_Some:
  "timedelta_seconds n = Some d \<longleftrightarrow>
     - 86399999913601 < n \<and> n < 86400000000000 \<and> d = n * 1000000"
  by (auto simp: timedelta_seconds_def)

lemma timedelta_seconds_None:
  "timedelta_seconds n = None \<longleftrightarrow> n \<le> - 86399999913601 \<or> 86400000000000 \<le> n"
  by (auto simp: timedelta_seconds_def)

lemma cleanup_old_sessions_raises:
  assumes "session_ttl (config c) \<le> - 86399999913601 \<or> 86400000000000 \<le> session_ttl (config c)"
  shows "cleanup_old_sessions w c =
           (Inl (Exception (overflow_text w)), c\<lparr>clock_reads := Suc (clock_reads c)\<rparr>)"
proof -
  have "timedelta_seconds (session_ttl (config c)) = None"
    using assms by (simp add: timedelta_seconds_None)
  then show ?thesis by (simp add: cleanup_old_sessions_def now_def)
qed

lemma cleanup_old_sessions_returns:
  assumes "dict_ok (sessions c)"
    and "- 86399999913601 < session_ttl (config c)" and "session_ttl (config c) < 86400000000000"
  shows "cleanup_old_sessions w c =
     (Inr (),
      c\<lparr>clock_reads := Suc (clock_reads c),
        sessions := filter (\<lambda>kv. \<not> expired (clock w (clock_reads c))
                                     (session_ttl (config c) * 1000000) (snd kv)) (sessions c)\<rparr>)"
proof -
  let ?P = "\<lambda>kv. expired (clock w (clock_reads c)) (session_ttl (config c) * 1000000) (snd kv)"
  have t: "timedelta_seconds (session_ttl (config c)) = Some (session_ttl (config c) * 1000000)"
    using assms(2,3) by (simp add: timedelta_seconds_Some)
  have "fold dict_del (map fst (filter ?P (sessions c))) (sessions c) =
          filter (\<lambda>kv. fst kv \<notin> set (map fst (filter ?P (sessions c)))) (sessions c)"
    by (rule fold_dict_del)
  also have "\<dots> = filter (\<lambda>kv. \<not> ?P kv) (sessions c)"
    by (rule dict_ok_filter_keys[OF assms(1)])
  finally show ?thesis
    by (simp add: cleanup_old_sessions_def now_def t)
qed

text \<open>
  C7, as amended. When the configured TTL is one that \<open>timedelta\<close> accepts (more than
  -86399999913601 and less than 86400000000000 seconds), the sweep completes; it reads
  the clock once, and with that time as the observation time it keeps, in their order,
  exactly the entries whose age (the observation time minus \<open>last_used\<close>, in
  microseconds) does not exceed the TTL (in seconds, so a million times as many
  microseconds): it removes exactly the entries whose age exceeds the TTL, and every
  entry that remains has an age of at most the TTL. With any other TTL the sweep raises
  and the store is left as it was. The store is a dict: its keys are distinct.
\<close>

theorem C7_sweep_removes_exactly_the_expired:
  assumes "dict_ok (sessions c)"
  shows "(- 86399999913601 < session_ttl (config c) \<and> session_ttl (config c) < 86400000000000 \<longrightarrow>
            fst (cleanup_old_sessions w c) = Inr () \<and>
            sessions (snd (cleanup_old_sessions w c)) =
              filter (\<lambda>kv. \<not> clock w (clock_reads c) - last_used (snd kv)
                              > session_ttl (config c) * 1000000) (sessions c) \<and>
            (\<forall>kv \<in> set (sessions (snd (cleanup_old_sessions w c))).
               clock w (clock_reads c) - last_used (snd kv) \<le> session_ttl (config c) * 1000000)) \<and>
         (session_ttl (config c) \<le> - 86399999913601 \<or> 86400000000000 \<le> session_ttl (config c) \<longrightarrow>
            fst (cleanup_old_sessions w c) = Inl (Exception (overflow_text w)) \<and>
            sessions (snd (cleanup_old_sessions w c)) = sessions c)"
proof (intro conjI impI)
  assume r: "- 86399999913601 < session_ttl (config c) \<and> session_ttl (config c) < 86400000000000"
  note e = cleanup_old_sessions_returns[OF assms conjunct1[OF r] conjunct2[OF r], of w]
  show "fst (cleanup_old_sessions w c) = Inr ()" by (simp add: e)
  show "sessions (snd (cleanup_old_sessions w c)) =
          filter (\<lambda>kv. \<not> clock w (clock_reads c) - last_used (snd kv)
                          > session_ttl (config c) * 1000000) (sessions c)"
    by (simp add: e expired_def)
  show "\<forall>kv \<in> set (sessions (snd (cleanup_old_sessions w c))).
          clock w (clock_reads c) - last_used (snd kv) \<le> session_ttl (config c) * 1000000"
    by (auto simp: e expired_def)
next
  assume o: "session_ttl (config c) \<le> - 86399999913601 \<or> 86400000000000 \<le> session_ttl (config c)"
  show "fst (cleanup_old_sessions w c) = Inl (Exception (overflow_text w))"
    by (simp add: cleanup_old_sessions_raises[OF o])
  show "sessions (snd (cleanup_old_sessions w c)) = sessions c"
    by (simp add: cleanup_old_sessions_raises[OF o])
qed

text \<open>
  With a TTL of one hour and a sweep at time 0: the entry used 3601 seconds before is
  removed, the entries used exactly 3600 seconds and one second before are kept.
\<close>

theorem C7_witness:
  "dict_ok (sessions (example_client 10 3600
       [session_at (ascii ''a'') (- 3601000000), session_at (ascii ''b'') (- 3600000000),
        session_at (ascii ''c'') (- 1000000)])) \<and>
   (- 86399999913601 < (3600::int) \<and> (3600::int) < 86400000000000) \<and>
   fst (cleanup_old_sessions (example_world [])
     (example_client 10 3600
       [session_at (ascii ''a'') (- 3601000000), session_at (ascii ''b'') (- 3600000000),
        session_at (ascii ''c'') (- 1000000)])) = Inr () \<and>
   sessions (snd (cleanup_old_sessions (example_world [])
     (example_client 10 3600
       [session_at (ascii ''a'') (- 3601000000), session_at (ascii ''b'') (- 3600000000),
        session_at (ascii ''c'') (- 1000000)]))) =
     [session_at (ascii ''b'') (- 3600000000), session_at (ascii ''c'') (- 1000000)]"
  using C7_sweep_removes_exactly_the_expired
    [of "example_client 10 3600
       [session_at (ascii ''a'') (- 3601000000), session_at (ascii ''b'') (- 3600000000),
        session_at (ascii ''c'') (- 1000000)]"
        "example_world []"]
  by (simp add: example_world_def example_client_def example_config_def init_client_def
        session_at_def dict_ok_def ascii_def)

text \<open>
  C7, as stated, fails: with a TTL of \<open>- 10 ^ 14\<close> seconds, which the configuration
  accepts, the sweep raises before it removes anything, and the entry that remains has
  the age 0, which exceeds the TTL.
\<close>

theorem C7_counterexample:
  "cleanup_old_sessions (example_world [])
     (example_client 10 (- 100000000000000) [session_at (ascii ''a'') 0]) =
     (Inl (Exception (ascii ''days out of range'')),
      (example_client 10 (- 100000000000000) [session_at (ascii ''a'') 0])\<lparr>clock_reads := 1\<rparr>) \<and>
   clock (example_world []) 0 - last_used (snd (session_at (ascii ''a'') 0))
     > (- 100000000000000) * 1000000"
  by (simp add: eval_defs)

section \<open>Sending a message\<close>

lemma touch_entry:
  "\<exists>s. dict_get (sessions (touch w cid c)) cid = Some s \<and>
       last_used s = clock w (if cid \<in> set (dict_keys (sessions c)) then clock_reads c
                              else Suc (clock_reads c))"
proof (cases "cid \<in> set (dict_keys (sessions c))")
  case True
  then obtain s0 where "dict_get (sessions c) cid = Some s0"
    using dict_get_None[of "sessions c" cid] by auto
  with True show ?thesis
    by (simp add: touch_def now_def dict_get_dict_set update_usage_def)
next
  case False
  then show ?thesis
    by (simp add: touch_def now_def dict_get_dict_set update_usage_def new_session_def)
qed

lemma touch_requests: "requests (touch w cid c) = requests c"
  by (simp add: touch_def now_def Let_def split: option.splits prod.splits)

lemma touch_base_url: "client_base_url (touch w cid c) = client_base_url c"
  by (simp add: touch_def now_def Let_def split: option.splits prod.splits)

lemma send_message_try_state:
  "snd (send_message_try w cid msg c) =
     (touch w cid c)\<lparr>requests := requests c @
        [\<lparr>url = client_base_url c @ ascii ''/chat_api/v1/conversations/'' @ cid @ ascii ''/messages'',
          body = MessageRequest msg\<rparr>]\<rparr>"
  by (simp add: send_message_try_def send_request_def Let_def touch_requests touch_base_url
           split: http_outcome.splits prod.splits option.splits sum.splits)

lemma send_message_state:
  "snd (send_message w cid msg c) = snd (send_message_try w cid msg c)"
  by (cases "send_message_try w cid msg c") (simp add: send_message_def split: sum.splits)

lemma send_message_except_ApiError: "\<exists>m. send_message_except e = ApiError m None"
  by (cases e) auto

lemma send_message_raises:
  "fst (send_message w cid msg c) = Inl e \<Longrightarrow> \<exists>m. e = ApiError m None"
  using send_message_except_ApiError
  by (cases "send_message_try w cid msg c"; cases "fst (send_message_try w cid msg c)")
     (auto simp: send_message_def)

text \<open>
  C9. \<open>send_message\<close> registers an unknown id and advances \<open>last_used\<close> before it issues
  the request. So when it fails (it then raises an \<open>ApiError\<close>), the store is the one the
  registration and the update left: it holds an entry for the id whose \<open>last_used\<close> is the
  time read for the update (the second reading of the clock when the id had to be
  registered, the first otherwise), and the one request was issued. Nothing is rolled
  back.
\<close>

theorem C9_touch_survives_failure:
  assumes "send_message w cid msg c = (Inl e, c')"
  shows "(\<exists>m. e = ApiError m None) \<and>
         sessions c' = sessions (touch w cid c) \<and>
         (\<exists>s. dict_get (sessions c') cid = Some s \<and>
              last_used s = clock w (if cid \<in> set (dict_keys (sessions c)) then clock_reads c
                                     else Suc (clock_reads c))) \<and>
         length (requests c') = Suc (length (requests c))"
proof -
  have st: "c' = snd (send_message_try w cid msg c)"
    using assms send_message_state[of w cid msg c] by simp
  have "\<exists>m. e = ApiError m None"
    using assms send_message_raises[of w cid msg c e] by simp
  moreover have s: "sessions c' = sessions (touch w cid c)"
    by (simp add: st send_message_try_state)
  moreover have "\<exists>s. dict_get (sessions c') cid = Some s \<and>
              last_used s = clock w (if cid \<in> set (dict_keys (sessions c)) then clock_reads c
                                     else Suc (clock_reads c))"
    unfolding s by (rule touch_entry)
  moreover have "length (requests c') = Suc (length (requests c))"
    by (simp add: st send_message_try_state)
  ultimately show ?thesis by blast
qed

theorem C9_witness:
  "send_message (example_world []) (ascii ''a'') (ascii ''hi'') (example_client 10 3600 []) =
     (Inl (ApiError (msg_send_network @ ascii ''connection refused'') None),
      (example_client 10 3600 [])\<lparr>
         sessions := [(ascii ''a'', \<lparr>conversation_id = ascii ''a'', created_at = 0, last_used = 1\<rparr>)],
         requests := [\<lparr>url = ascii ''https://code.1c.ai/chat_api/v1/conversations/a/messages'',
                       body = MessageRequest (ascii ''hi'')\<rparr>],
         clock_reads := 2\<rparr>)
   \<and> (\<exists>s. dict_get (sessions (snd (send_message (example_world []) (ascii ''a'') (ascii ''hi'')
              (example_client 10 3600 [])))) (ascii ''a'') = Some s \<and> last_used s = 1)"
proof -
  have e: "send_message (example_world []) (ascii ''a'') (ascii ''hi'') (example_client 10 3600 []) =
     (Inl (ApiError (msg_send_network @ ascii ''connection refused'') None),
      (example_client 10 3600 [])\<lparr>
         sessions := [(ascii ''a'', \<lparr>conversation_id = ascii ''a'', created_at = 0, last_used = 1\<rparr>)],
         requests := [\<lparr>url = ascii ''https://code.1c.ai/chat_api/v1/conversations/a/messages'',
                       body = MessageRequest (ascii ''hi'')\<rparr>],
         clock_reads := 2\<rparr>)"
    by (simp add: eval_defs rstrip_slash_def ascii_def)
  from C9_touch_survives_failure[OF e] show ?thesis using e by (simp add: eval_defs)
qed

section \<open>The store is a dict\<close>

text \<open>
  The keys of the store are distinct in the initial client, and every operation of the
  client keeps them distinct.
\<close>

lemma dict_ok_init: "dict_ok (sessions (init_client cfg))"
  by (simp add: init_client_def dict_ok_def)

lemma dict_ok_cleanup:
  "dict_ok (sessions c) \<Longrightarrow> dict_ok (sessions (snd (cleanup_old_sessions w c)))"
  by (simp add: cleanup_old_sessions_def now_def fold_dict_del dict_ok_filter
           split: option.splits)

lemma dict_ok_touch: "dict_ok (sessions c) \<Longrightarrow> dict_ok (sessions (touch w cid c))"
  by (simp add: touch_def now_def Let_def dict_ok_dict_set split: option.splits)

lemma dict_ok_send_message:
  "dict_ok (sessions c) \<Longrightarrow> dict_ok (sessions (snd (send_message w cid msg c)))"
  by (simp add: send_message_state send_message_try_state dict_ok_touch)

lemma dict_ok_create_conversation:
  "dict_ok (sessions c) \<Longrightarrow> dict_ok (sessions (snd (create_conversation w pl sl c)))"
  by (simp add: create_conversation_def create_conversation_try_def send_request_def now_def
        Let_def dict_ok_dict_set split: http_outcome.splits sum.splits prod.splits)

lemma dict_ok_get_or_create_session:
  "dict_ok (sessions c) \<Longrightarrow> dict_ok (sessions (snd (get_or_create_session w cn pl c)))"
  using dict_ok_cleanup[of c w]
    dict_ok_create_conversation[of "snd (cleanup_old_sessions w c)" w pl None]
  by (auto simp: get_or_create_session_def Let_def dict_ok_dict_del
           split: option.splits prod.splits sum.splits)

section \<open>The bound on the store\<close>

text \<open>
  C1. The population of the store is not bounded by \<open>max_active_sessions\<close>: with a
  maximum of 1, two calls of \<open>get_or_create_session\<close> with \<open>create_new\<close> leave two
  entries, and so does \<open>send_message\<close> with an unknown id on a store that holds one.
  Only the path that reuses a session tests the limit.
\<close>

theorem C1_population_exceeds_maximum:
  "max_active_sessions (config (example_client 1 3600 [])) = 1 \<and>
   length (sessions (snd (get_or_create_session
      (example_world [created (ascii ''a''), created (ascii ''b'')]) True None
      (snd (get_or_create_session
         (example_world [created (ascii ''a''), created (ascii ''b'')]) True None
         (example_client 1 3600 [])))))) = 2 \<and>
   length (sessions (snd (send_message (example_world []) (ascii ''b'') (ascii ''hi'')
      (example_client 1 3600 [session_at (ascii ''a'') 0])))) = 2"
  by (simp add: eval_defs ascii_def)

text \<open>
  C6. With a maximum of 1 and one entry that has not expired, \<open>get_or_create_session\<close>
  without \<open>create_new\<close> evicts that entry and then finds no entry to return: \<open>max\<close> raises
  on the empty store, and the store is left empty.
\<close>

theorem C6_single_entry_at_maximum:
  "get_or_create_session (example_world []) False None
       (example_client 1 3600 [session_at (ascii ''a'') 0]) =
     (Inl (Exception (ascii ''max() arg is an empty sequence'')),
      (example_client 1 3600 [])\<lparr>clock_reads := 1\<rparr>)"
  by (simp add: eval_defs)

text \<open>
  The rest of the reusing path. When the sweep completes and the swept store is below
  the maximum, or holds at least two entries, the call returns the id of an entry of the resulting store whose
  \<open>last_used\<close> is the largest there; below the maximum the store is the swept one, at or
  above it one entry with the smallest \<open>last_used\<close> has been evicted first. With A last
  used at 10:00 and B at 10:05, a call at 10:06 returns B: after evicting A when the
  maximum is 2, with the store as it was when the maximum is 3.
\<close>

lemma get_or_create_session_reuse:
  assumes ok: "dict_ok (sessions c)"
    and swept: "cleanup_old_sessions w c = (Inr (), c1)"
    and ne: "sessions c1 \<noteq> []"
    and room: "int (length (sessions c1)) < max_active_sessions (config c) \<or>
               2 \<le> length (sessions c1)"
  shows "\<exists>recent c2.
     get_or_create_session w False pl c = (Inr (fst recent), c2) \<and>
     recent \<in> set (sessions c2) \<and>
     (\<forall>kv \<in> set (sessions c2). last_used (snd kv) \<le> last_used (snd recent)) \<and>
     (if int (length (sessions c1)) < max_active_sessions (config c)
      then sessions c2 = sessions c1
      else \<exists>oldest \<in> set (sessions c1).
             (\<forall>kv \<in> set (sessions c1). last_used (snd oldest) \<le> last_used (snd kv)) \<and>
             sessions c2 = dict_del (fst oldest) (sessions c1))"
proof -
  let ?f = "\<lambda>kv. last_used (snd kv)"
  have cfg: "config c1 = config c"
    using swept by (auto simp: cleanup_old_sessions_def now_def split: option.splits)
  have ok1: "dict_ok (sessions c1)"
    using dict_ok_cleanup[OF ok, of w] swept by simp
  show ?thesis
  proof (cases "int (length (sessions c1)) < max_active_sessions (config c)")
    case True
    obtain r where r: "max_by ?f (sessions c1) = Some r"
      using ne max_by_None[of ?f "sessions c1"] by auto
    have "get_or_create_session w False pl c = (Inr (fst r), c1)"
      using True ne r by (simp add: get_or_create_session_def swept Let_def cfg)
    with True max_by_Some[OF r] show ?thesis
      by (intro exI[of _ r] exI[of _ c1]) simp
  next
    case False
    then have two: "2 \<le> length (sessions c1)" using room by simp
    obtain old where old: "min_by ?f (sessions c1) = Some old"
      using ne min_by_None[of ?f "sessions c1"] by auto
    let ?d = "dict_del (fst old) (sessions c1)"
    have "Suc (length ?d) = length (sessions c1)"
      using dict_del_length[OF ok1] min_by_Some[OF old] by blast
    then have "?d \<noteq> []" using two by auto
    then obtain r where r: "max_by ?f ?d = Some r"
      using max_by_None[of ?f ?d] by auto
    have "get_or_create_session w False pl c = (Inr (fst r), c1\<lparr>sessions := ?d\<rparr>)"
      using False ne old r by (simp add: get_or_create_session_def swept Let_def cfg)
    with False max_by_Some[OF r] min_by_Some[OF old] show ?thesis
      by (intro exI[of _ r] exI[of _ "c1\<lparr>sessions := ?d\<rparr>"]) (simp, blast)
  qed
qed

lemma recency_example:
  "fst (get_or_create_session ((example_world [])\<lparr>clock := \<lambda>n. ten_o_clock + 360000000\<rparr>) False None
     (example_client 2 3600
        [session_at (ascii ''A'') ten_o_clock, session_at (ascii ''B'') (ten_o_clock + 300000000)])) =
     Inr (ascii ''B'') \<and>
   sessions (snd (get_or_create_session ((example_world [])\<lparr>clock := \<lambda>n. ten_o_clock + 360000000\<rparr>) False None
     (example_client 2 3600
        [session_at (ascii ''A'') ten_o_clock, session_at (ascii ''B'') (ten_o_clock + 300000000)]))) =
     [session_at (ascii ''B'') (ten_o_clock + 300000000)] \<and>
   get_or_create_session ((example_world [])\<lparr>clock := \<lambda>n. ten_o_clock + 360000000\<rparr>) False None
     (example_client 3 3600
        [session_at (ascii ''A'') ten_o_clock, session_at (ascii ''B'') (ten_o_clock + 300000000)]) =
     (Inr (ascii ''B''),
      (example_client 3 3600
        [session_at (ascii ''A'') ten_o_clock, session_at (ascii ''B'') (ten_o_clock + 300000000)])
        \<lparr>clock_reads := 1\<rparr>)"
  by (simp add: eval_defs ten_o_clock_def ascii_def)

section \<open>The stream reconstructor\<close>

lemmas json_defs = decode_event_def json_loads_def ascii_def json_string_def json_ws_def hex4_def
  hex_digit_def json_escape_def json_number_def is_digit_def nat_of_digits_def MessageChunk_of_def
  dict_get_def

lemma decode_user_finished:
  "take 6 line_user_finished = ascii ''data: ''"
  "decode_event (drop 6 line_user_finished) =
     Some \<lparr>role = ascii ''user'', content = None, finished = True\<rparr>"
  by (simp_all add: line_user_finished_def json_defs)

lemma decode_hi_finished:
  "take 6 line_hi_finished = ascii ''data: ''"
  "decode_event (drop 6 line_hi_finished) =
     Some \<lparr>role = ascii ''assistant'', content = Some [(ascii ''text'', JStr (ascii ''Hi''))],
           finished = True\<rparr>"
  by (simp_all add: line_hi_finished_def json_defs)


lemma decode_padded:
  "take 6 line_padded = ascii ''data: ''"
  "decode_event (drop 6 line_padded) =
     Some \<lparr>role = ascii ''assistant'', content = Some [(ascii ''text'', JStr (ascii '' Hel ''))],
           finished = False\<rparr>"
  by (simp_all add: line_padded_def json_defs)

lemma decode_empty_finished:
  "take 6 line_empty_finished = ascii ''data: ''"
  "decode_event (drop 6 line_empty_finished) =
     Some \<lparr>role = ascii ''assistant'', content = Some [(ascii ''text'', JStr [])],
           finished = True\<rparr>"
  by (simp_all add: line_empty_finished_def json_defs)



lemma sse_loop_append:
  "\<not> snd (snd (sse_loop dec acc pre)) \<Longrightarrow>
   sse_loop dec acc (pre @ xs) = sse_loop dec (fst (sse_loop dec acc pre)) xs"
  by (induction pre arbitrary: acc) (auto split: sse_step.splits)

lemma dict_get_nonempty: "dict_get c k = Some v \<Longrightarrow> c \<noteq> []"
  by (auto simp: dict_get_def)

lemma strip_Nil: "strip [] = []"
  by (simp add: strip_def)

lemma sse_line_assistant_text:
  assumes "take 6 line = ascii ''data: ''" "dec (drop 6 line) = Some chunk"
    and "role chunk = ascii ''assistant''" "content chunk = Some c"
    and "dict_get c (ascii ''text'') = Some text"
  shows "sse_line dec acc line =
     (if truthy text then
        (case text of
           JStr t \<Rightarrow> if finished chunk then Break (utf8_roundtrip t) else Continue (utf8_roundtrip t)
         | _ \<Rightarrow> Continue acc)
      else if finished chunk then Break acc else Continue acc)"
  using assms dict_get_nonempty[OF assms(5)] by (simp add: sse_line_def)

text \<open>Conversely, the loop body leaves the loop on no other line.\<close>

lemma sse_line_Break:
  assumes "sse_line dec acc line = Break a"
  shows "take 6 line = ascii ''data: '' \<and>
         (\<exists>chunk c tv. dec (drop 6 line) = Some chunk \<and> finished chunk \<and>
            role chunk = ascii ''assistant'' \<and> content chunk = Some c \<and>
            dict_get c (ascii ''text'') = Some tv \<and> (truthy tv \<longrightarrow> (\<exists>t. tv = JStr t)))"
  using assms
  by (auto simp: sse_line_def split: if_splits option.splits json.splits)

text \<open>
  C2, as amended. The loop stops, and reads none of the lines that follow, as soon as it
  reaches a line with the event-data prefix whose event is an assistant event with a
  content object that has a \<open>text\<close> key (a string, or a value that counts as false) and
  carries \<open>finished\<close>. The test of \<open>finished\<close> stands inside the test for such an event.
\<close>

theorem C2_stops_at_finished_assistant_text:
  assumes "take 6 line = ascii ''data: ''" and "dec (drop 6 line) = Some chunk"
    and "finished chunk"
    and "role chunk = ascii ''assistant''" and "content chunk = Some c"
    and "dict_get c (ascii ''text'') = Some text"
    and "truthy text \<longrightarrow> (\<exists>t. text = JStr t)"
    and "\<not> snd (snd (sse_loop dec acc pre))"
  shows "\<exists>a. sse_loop dec acc (pre @ line # rest) = (a, rest, True)"
proof -
  have "\<exists>a. sse_line dec (fst (sse_loop dec acc pre)) line = Break a"
    using assms(3,7) sse_line_assistant_text[of line dec chunk c "text"] assms(1,2,4,5,6)
    by auto
  then show ?thesis
    by (auto simp: sse_loop_append[OF assms(8)])
qed

theorem C2_witness:
  "take 6 line_hi_finished = ascii ''data: '' \<and>
   decode_event (drop 6 line_hi_finished) =
     Some \<lparr>role = ascii ''assistant'', content = Some [(ascii ''text'', JStr (ascii ''Hi''))],
           finished = True\<rparr> \<and>
   \<not> snd (snd (sse_loop decode_event [] [line_user_finished])) \<and>
   (\<exists>a. sse_loop decode_event [] ([line_user_finished] @ line_hi_finished # [line_padded]) =
         (a, [line_padded], True))"
  using C2_stops_at_finished_assistant_text
    [of line_hi_finished decode_event _ _ "JStr (ascii ''Hi'')" "[]" "[line_user_finished]"
        "[line_padded]"]
  by (simp add: decode_hi_finished decode_user_finished sse_line_def dict_get_def)

text \<open>
  C2, as stated, fails: the first line below has the prefix, decodes to an event and
  carries \<open>finished = true\<close>, but its role is not \<open>assistant\<close>; the loop goes on, reads
  the second line and returns its text.
\<close>

theorem C2_counterexample:
  "take 6 line_user_finished = ascii ''data: '' \<and>
   decode_event (drop 6 line_user_finished) =
     Some \<lparr>role = ascii ''user'', content = None, finished = True\<rparr> \<and>
   sse_loop decode_event [] [line_user_finished, line_hi_finished] = (ascii ''Hi'', [], True) \<and>
   parse_sse_response decode_event [line_user_finished, line_hi_finished] = ascii ''Hi''"
  by (simp add: parse_sse_response_def sse_line_def decode_user_finished decode_hi_finished
        dict_get_def utf8_roundtrip_def strip_def isspace_def ascii_def)



text \<open>
  C10. A line whose event is an assistant event with the empty string under \<open>text\<close>
  leaves the accumulator as it is. When the event carries \<open>finished\<close>, the loop still
  stops at the line: after lines \<open>pre\<close> that did not stop it, the lines after this one
  are not read and the result is the accumulator that \<open>pre\<close> left, stripped; with no
  line before, the result is the empty string.
\<close>

theorem C10_empty_text_keeps_accumulator:
  assumes "take 6 line = ascii ''data: ''" and "dec (drop 6 line) = Some chunk"
    and "role chunk = ascii ''assistant''" and "content chunk = Some c"
    and "dict_get c (ascii ''text'') = Some (JStr [])"
  shows "sse_line dec acc line = (if finished chunk then Break acc else Continue acc) \<and>
         (finished chunk \<longrightarrow> \<not> snd (snd (sse_loop dec [] pre)) \<longrightarrow>
            sse_loop dec [] (pre @ line # rest) = (fst (sse_loop dec [] pre), rest, True) \<and>
            parse_sse_response dec (pre @ line # rest) = strip (fst (sse_loop dec [] pre))) \<and>
         (finished chunk \<longrightarrow> parse_sse_response dec (line # rest) = [])"
proof -
  have l: "sse_line dec a line = (if finished chunk then Break a else Continue a)" for a
    using sse_line_assistant_text[of line dec chunk c "JStr []" a] assms by simp
  have "sse_loop dec [] (pre @ line # rest) = (fst (sse_loop dec [] pre), rest, True)"
    if "finished chunk" "\<not> snd (snd (sse_loop dec [] pre))"
    using that l by (simp add: sse_loop_append)
  moreover have "parse_sse_response dec (line # rest) = []" if "finished chunk"
    using that l by (simp add: parse_sse_response_def strip_Nil)
  ultimately show ?thesis using l by (simp add: parse_sse_response_def)
qed

theorem C10_witness:
  "take 6 line_empty_finished = ascii ''data: '' \<and>
   decode_event (drop 6 line_empty_finished) =
     Some \<lparr>role = ascii ''assistant'', content = Some [(ascii ''text'', JStr [])],
           finished = True\<rparr> \<and>
   \<not> snd (snd (sse_loop decode_event [] [line_padded])) \<and>
   sse_loop decode_event [] ([line_padded] @ line_empty_finished # [line_hi_finished]) =
     (ascii '' Hel '', [line_hi_finished], True) \<and>
   parse_sse_response decode_event ([line_padded] @ line_empty_finished # [line_hi_finished]) =
     ascii ''Hel''"
  using C10_empty_text_keeps_accumulator
    [of line_empty_finished decode_event _ _ "[]" "[line_padded]" "[line_hi_finished]"]
  by (simp add: decode_empty_finished decode_padded sse_line_def dict_get_def utf8_roundtrip_def
        strip_def isspace_def ascii_def)

section \<open>The configuration\<close>

text \<open>
  C5, as amended. A TTL or a maximum session count of zero, or any other integer, is not
  rejected and not clamped: whenever a settings source loads, the same source with any two
  integers in place of the TTL and of the maximum loads as well, and the configuration
  holds exactly these two integers, with every other field as before.
\<close>

theorem C5_any_integer_is_accepted:
  "get_config s = Inr cfg \<longrightarrow>
   get_config (s\<lparr>set_max_active_sessions := IntValue n, set_session_ttl := IntValue m\<rparr>) =
     Inr (cfg\<lparr>max_active_sessions := n, session_ttl := m\<rparr>)"
  by (auto simp: get_config_def validation_errors_def int_field_def split: if_splits)

theorem C5_witness:
  "get_config example_settings = Inr (example_config 10 3600) \<and>
   get_config
     (example_settings\<lparr>set_max_active_sessions := IntValue 7, set_session_ttl := IntValue (- 5)\<rparr>)
     = Inr ((example_config 10 3600)\<lparr>max_active_sessions := 7, session_ttl := - 5\<rparr>)"
proof -
  have e: "get_config example_settings = Inr (example_config 10 3600)"
    by (simp add: example_settings_def example_config_def get_config_def validation_errors_def
          int_field_def str_field_def)
  from C5_any_integer_is_accepted
         [where s = example_settings and cfg = "example_config 10 3600" and n = 7 and m = "- 5"] e
  show ?thesis by simp
qed

text \<open>
  C5, as stated, fails: with a TTL of zero and a maximum of zero the configuration loads.
\<close>

theorem C5_counterexample:
  "get_config
     (example_settings\<lparr>set_max_active_sessions := IntValue 0, set_session_ttl := IntValue 0\<rparr>)
     = Inr (example_config 0 0)"
  by (simp add: example_settings_def example_config_def get_config_def validation_errors_def
        int_field_def str_field_def)

section \<open>Blank input\<close>

lemma strip_eq_Nil: "strip s = [] \<longleftrightarrow> blank s"
proof
  assume "blank s"
  then have d: "dropWhile isspace s = []"
    by (simp add: blank_def dropWhile_eq_Nil_conv)
  show "strip s = []" by (simp only: strip_def d rev.simps dropWhile.simps)
next
  assume "strip s = []"
  then have a: "\<forall>x \<in> set (dropWhile isspace s). isspace x"
    by (simp add: strip_def dropWhile_eq_Nil_conv)
  have "dropWhile isspace s = []"
  proof (rule ccontr)
    assume n: "dropWhile isspace s \<noteq> []"
    then have "\<not> isspace (hd (dropWhile isspace s))" by (rule hd_dropWhile)
    moreover have "hd (dropWhile isspace s) \<in> set (dropWhile isspace s)" using n by simp
    ultimately show False using a by blast
  qed
  then show "blank s" by (simp add: blank_def dropWhile_eq_Nil_conv)
qed

lemma handlers_blank:
  "blank (get_str (arg_question args) []) \<Longrightarrow>
     handle_ask_1c_ai w args c = (Inr msg_empty_question, c)"
  "blank (get_str (arg_syntax_element args) []) \<Longrightarrow>
     handle_explain_syntax w args c = (Inr msg_empty_syntax, c)"
  "blank (get_str (arg_code args) []) \<Longrightarrow>
     handle_check_code w args c = (Inr msg_empty_code, c)"
  by (simp_all add: handle_ask_1c_ai_def handle_explain_syntax_def handle_check_code_def
        strip_eq_Nil)

lemma tool_names_distinct:
  "ascii ''ask_1c_ai'' \<noteq> ascii ''explain_1c_syntax''"
  "ascii ''ask_1c_ai'' \<noteq> ascii ''check_1c_code''"
  "ascii ''explain_1c_syntax'' \<noteq> ascii ''check_1c_code''"
  by (simp_all add: ascii_def)

text \<open>
  C8. When the text of a call of one of the three tools (the question, the syntax
  element, the code; absent counts as empty) is blank, the call returns the tool's error
  message, unless the configuration or the client could not be set up, in which case it
  returns that error. In every case no request is issued and the store is as it was: a
  client that existed is left exactly as it was, clock readings included.
\<close>

theorem C8_blank_input_is_rejected:
  assumes "(name = ascii ''ask_1c_ai'' \<and> blank (get_str (arg_question args) []) \<and>
              msg = msg_empty_question) \<or>
           (name = ascii ''explain_1c_syntax'' \<and> blank (get_str (arg_syntax_element args) []) \<and>
              msg = msg_empty_syntax) \<or>
           (name = ascii ''check_1c_code'' \<and> blank (get_str (arg_code args) []) \<and>
              msg = msg_empty_code)"
    and "handle_call_tool w name args srv = (text, srv')"
  shows "store_of srv' = store_of srv \<and> requests_of srv' = requests_of srv \<and>
         (\<forall>c. api_client srv = Some c \<longrightarrow> api_client srv' = Some c) \<and>
         (text = msg \<or>
          (server_config srv = None \<and>
             (\<exists>errs. get_config (environment w) = Inl errs \<and>
                     text = msg_config_error @ validation_text w errs @ msg_config_hint)) \<or>
          (api_client srv = None \<and> (\<exists>m. client_error w = Some m \<and> text = msg_connect_error @ m)))"
proof -
  have d: "dispatch w name args c = (Inr msg, c)" for c
    using assms(1) tool_names_distinct tool_names_distinct[symmetric]
    by (auto simp: dispatch_def handlers_blank)
  show ?thesis
    using assms(2)
    by (auto simp: handle_call_tool_def d store_of_def requests_of_def init_client_def
             split: option.splits sum.splits)
qed

theorem C8_witness:
  "blank (ascii ''  '') \<and>
   handle_call_tool (example_world []) (ascii ''check_1c_code'')
       (example_arguments\<lparr>arg_code := Some (ascii ''  '')\<rparr>)
       (example_server [session_at (ascii ''a'') 0]) =
     (msg_empty_code, example_server [session_at (ascii ''a'') 0])"
proof -
  have b: "blank (ascii ''  '')"
    by (simp add: blank_def isspace_def ascii_def)
  obtain out srv' where h:
    "handle_call_tool (example_world []) (ascii ''check_1c_code'')
       (example_arguments\<lparr>arg_code := Some (ascii ''  '')\<rparr>)
       (example_server [session_at (ascii ''a'') 0]) = (out, srv')"
    by (cases "handle_call_tool (example_world []) (ascii ''check_1c_code'')
       (example_arguments\<lparr>arg_code := Some (ascii ''  '')\<rparr>)
       (example_server [session_at (ascii ''a'') 0])") blast
  have "out = msg_empty_code \<and> api_client srv' = api_client (example_server [session_at (ascii ''a'') 0])"
    using C8_blank_input_is_rejected[OF _ h, of msg_empty_code] b
    by (simp add: example_server_def example_arguments_def get_str_def)
  moreover have "server_config srv' = server_config (example_server [session_at (ascii ''a'') 0])"
    using h by (auto simp: handle_call_tool_def example_server_def split: prod.splits sum.splits)
  ultimately show ?thesis using h b by simp
qed

section \<open>Remote failures\<close>

text \<open>
  What the two operations raise for each kind of failure, with exactly one request in
  every case, and how a handler whose text is not blank passes on what
  \<open>get_or_create_session\<close> or \<open>send_message\<close> raised.
\<close>

lemma create_conversation_except_ApiError: "\<exists>m. create_conversation_except e = ApiError m None"
  by (cases e) auto

lemma create_conversation_requests:
  "length (requests (snd (create_conversation w pl sl c))) = Suc (length (requests c))"
  by (simp add: create_conversation_def create_conversation_try_def send_request_def now_def Let_def
           split: http_outcome.splits sum.splits prod.splits)

lemma create_conversation_transport:
  "http w (length (requests c)) = TransportError t \<Longrightarrow>
   fst (create_conversation w pl sl c) = Inl (ApiError (msg_create_network @ t) None)"
  by (simp add: create_conversation_def create_conversation_try_def send_request_def)

lemma create_conversation_status:
  "http w (length (requests c)) = Responded r \<Longrightarrow> status_code r \<noteq> 200 \<Longrightarrow>
   fst (create_conversation w pl sl c) =
     Inl (ApiError (msg_create_unexpected @ msg_create_status @ str_int (status_code r)) None)"
  by (simp add: create_conversation_def create_conversation_try_def send_request_def)

lemma send_message_transport:
  "http w (length (requests c)) = TransportError t \<Longrightarrow>
   fst (send_message w cid msg c) = Inl (ApiError (msg_send_network @ t) None)"
  by (simp add: send_message_def send_message_try_def send_request_def Let_def touch_requests)

lemma send_message_status:
  "http w (length (requests c)) = Responded r \<Longrightarrow> status_code r \<noteq> 200 \<Longrightarrow>
   fst (send_message w cid msg c) =
     Inl (ApiError (msg_send_unexpected @ msg_send_status @ str_int (status_code r)) None)"
  by (simp add: send_message_def send_message_try_def send_request_def Let_def touch_requests)

lemma send_message_stream_error:
  "http w (length (requests c)) = Responded r \<Longrightarrow> status_code r = 200 \<Longrightarrow>
   stream_error r = Some t \<Longrightarrow> \<not> snd (snd (sse_loop (decode w) [] (lines r))) \<Longrightarrow>
   fst (send_message w cid msg c) = Inl (ApiError (msg_send_network @ t) None)"
  by (cases "sse_loop (decode w) [] (lines r)" rule: prod_cases3)
     (simp add: send_message_def send_message_try_def send_request_def Let_def touch_requests)

lemma send_message_requests:
  "length (requests (snd (send_message w cid msg c))) = Suc (length (requests c))"
  by (simp add: send_message_state send_message_try_state)

lemma handle_ask_1c_ai_raises:
  assumes "strip (get_str (arg_question args) []) \<noteq> []"
  shows "fst (handle_ask_1c_ai w args c) = Inl e \<longleftrightarrow>
     (let g = get_or_create_session w (get_bool (arg_create_new_session args) False)
                (if get_str (arg_programming_language args) [] = [] then None
                 else Some (get_str (arg_programming_language args) [])) c
      in fst g = Inl e \<or>
         (\<exists>cid. fst g = Inr cid \<and>
            fst (send_message w cid (get_str (arg_question args) []) (snd g)) = Inl e))"
  using assms
  by (auto simp: handle_ask_1c_ai_def Let_def split: prod.splits sum.splits)

lemma handle_explain_syntax_raises:
  assumes "strip (get_str (arg_syntax_element args) []) \<noteq> []"
  shows "fst (handle_explain_syntax w args c) = Inl e \<longleftrightarrow>
     (let g = get_or_create_session w False None c
      in fst g = Inl e \<or>
         (\<exists>cid. fst g = Inr cid \<and>
            fst (send_message w cid
                   (msg_explain_question @ get_str (arg_syntax_element args) [] @
                    (if get_str (arg_context args) [] \<noteq> []
                     then msg_explain_context @ get_str (arg_context args) [] else []))
                   (snd g)) = Inl e))"
  using assms
  by (auto simp: handle_explain_syntax_def Let_def split: prod.splits sum.splits)

lemma handle_check_code_raises:
  assumes "strip (get_str (arg_code args) []) \<noteq> []"
  shows "fst (handle_check_code w args c) = Inl e \<longleftrightarrow>
     (let g = get_or_create_session w False None c
      in fst g = Inl e \<or>
         (\<exists>cid. fst g = Inr cid \<and>
            fst (send_message w cid
                   (msg_check_question @
                    check_descriptions (get_str (arg_check_type args) (ascii ''syntax'')) @
                    msg_check_advice @ get_str (arg_code args) [] @ msg_check_fence)
                   (snd g)) = Inl e))"
  using assms
  by (auto simp: handle_check_code_def Let_def split: prod.splits sum.splits)

lemma get_or_create_session_creates:
  "cleanup_old_sessions w c = (Inr (), c1) \<Longrightarrow> create_new \<or> sessions c1 = [] \<Longrightarrow>
   get_or_create_session w create_new pl c = create_conversation w pl None c1"
  by (simp add: get_or_create_session_def)

lemma handle_call_tool_ApiError:
  "dispatch w name args c = (Inl (ApiError m st), c') \<Longrightarrow>
   handle_call_tool w name args \<lparr>server_config = Some cfg, api_client = Some c\<rparr> =
     (msg_api_error @ m, \<lparr>server_config = Some cfg, api_client = Some c'\<rparr>)"
  by (simp add: handle_call_tool_def)


lemmas server_defs = handle_call_tool_def dispatch_def handle_ask_1c_ai_def
  handle_explain_syntax_def handle_check_code_def get_str_def get_bool_def

text \<open>
  C4. A status other than 200 does not reach the boundary as it was raised. On a server
  that has just started, the first call of \<open>ask_1c_ai\<close> creates a conversation; when the
  service answers with the status 500, the body of \<open>create_conversation\<close> raises an
  \<open>ApiError\<close> with the status message and the status code 500, but the function's own
  handler for \<open>Exception\<close> takes it and raises another one, with the prefix of an
  unexpected error before the message and no status code. The boundary returns that
  message after its own prefix. \<open>send_message\<close> does the same with its status error.
\<close>

theorem C4_status_error_is_rewrapped:
  "fst (create_conversation_try (example_world [status_only 500]) None None
          (init_client (example_config 10 3600))) =
     Inl (ApiError (msg_create_status @ ascii ''500'') (Some 500)) \<and>
   fst (create_conversation (example_world [status_only 500]) None None
          (init_client (example_config 10 3600))) =
     Inl (ApiError (msg_create_unexpected @ msg_create_status @ ascii ''500'') None) \<and>
   fst (handle_call_tool (example_world [status_only 500]) (ascii ''ask_1c_ai'')
          (example_arguments\<lparr>arg_question := Some (ascii ''hi'')\<rparr>)
          \<lparr>server_config = None, api_client = None\<rparr>) =
     msg_api_error @ msg_create_unexpected @ msg_create_status @ ascii ''500'' \<and>
   fst (send_message_try (example_world [status_only 500]) (ascii ''a'') (ascii ''hi'')
          (init_client (example_config 10 3600))) =
     Inl (ApiError (msg_send_status @ ascii ''500'') (Some 500)) \<and>
   fst (send_message (example_world [status_only 500]) (ascii ''a'') (ascii ''hi'')
          (init_client (example_config 10 3600))) =
     Inl (ApiError (msg_send_unexpected @ msg_send_status @ ascii ''500'') None)"
  by (simp add: eval_defs server_defs get_config_def validation_errors_def int_field_def
        str_field_def example_settings_def str_int_def str_nat.simps strip_def isspace_def
        ascii_def)

end
